theory Spec2Isabelle
  imports Complex_Main "HOL-Library.Char_ord" "HOL-Library.List_Lexorder"
begin

section \<open>Phase-plane utilities of PyDSTool (Toolbox/phaseplane.py)\<close>

text \<open>
  The development embeds the root-finding and tracing routines of
  \<^verbatim>\<open>Toolbox/phaseplane.py\<close>. Python floats are modelled as exact reals, a raised
  exception is a value of type \<open>exn\<close> on the left of a sum, and every external
  collaborator (vector field, nonlinear solver, trajectory integrator, continuation
  stepper) is a function parameter of the routine that calls it.
\<close>

subsection \<open>Exceptions\<close>

datatype exn =
    AssertionError string
  | RuntimeError string
  | ValueError string
  | TypeError string
  | IndexError string
  | NotImplementedError string
  | PyDSTool_ExistError string
  | PyDSTool_TypeError string
  | StringException string
  | NameError string
  | FloatingPointFault string

fun is_RuntimeError :: "exn \<Rightarrow> bool" where
  "is_RuntimeError (RuntimeError m) = True"
| "is_RuntimeError e = False"

fun is_AssertionError :: "exn \<Rightarrow> bool" where
  "is_AssertionError (AssertionError m) = True"
| "is_AssertionError e = False"

subsection \<open>bisection (lines 615--642)\<close>

text \<open>
  \<open>func\<close> is the scalar test function; it may raise. \<open>nrm\<close> is
  \<^verbatim>\<open>norm(., normord)\<close> on the type of the bracket's end points. Besides the
  outcome the model reports two observations of the run: how many times the loop body
  was entered, and the midpoints at which \<open>func\<close> was evaluated, in order.
\<close>

function bisection_loop ::
  "('a::real_vector \<Rightarrow> exn + real) \<Rightarrow> ('a \<Rightarrow> real) \<Rightarrow> real \<Rightarrow> int \<Rightarrow> int \<Rightarrow> 'a \<Rightarrow> 'a \<Rightarrow> real
     \<Rightarrow> (exn + 'a) \<times> nat \<times> 'a list" where
  "bisection_loop func nrm xtol maxiter i a b eva =
     (if i \<le> maxiter then
        (let dist = (b - a) /\<^sub>R 2; p = a + dist in
         if nrm dist < xtol then (Inr p, 1, [])
         else
           (case func p of
              Inl e \<Rightarrow> if is_RuntimeError e then (Inr p, 1, [p]) else (Inl e, 1, [p])
            | Inr ev \<Rightarrow>
                if ev = 0 then (Inr p, 1, [p])
                else
                  (case (if ev * eva > 0
                         then bisection_loop func nrm xtol maxiter (i + 1) p b ev
                         else bisection_loop func nrm xtol maxiter (i + 1) a p eva) of
                     (r, k, ps) \<Rightarrow> (r, Suc k, p # ps))))
      else (Inl (RuntimeError ''Method failed after %d iterations.''), 0, []))"
  by pat_completeness auto
termination
  by (relation "measure (\<lambda>(func, nrm, xtol, maxiter, i, a, b, eva). nat (maxiter + 1 - i))") auto

declare bisection_loop.simps [simp del]

definition bisection ::
  "('a::real_vector \<Rightarrow> exn + real) \<Rightarrow> ('a \<Rightarrow> real) \<Rightarrow> 'a \<Rightarrow> 'a \<Rightarrow> real \<Rightarrow> int
     \<Rightarrow> (exn + 'a) \<times> nat \<times> 'a list" where
  "bisection func nrm a b xtol maxiter =
     (case func a of
        Inl e \<Rightarrow> (Inl e, 0, [])
      | Inr eva \<Rightarrow>
          (case func b of
             Inl e \<Rightarrow> (Inl e, 0, [])
           | Inr evb \<Rightarrow>
               if eva * evb < 0 then bisection_loop func nrm xtol maxiter 1 a b eva
               else (Inl (AssertionError
                       ''Must start with interval with func(a) * func(b) <0''), 0, [])))"

subsection \<open>Helpers for raised exceptions, indexing and norms\<close>

definition ebind :: "exn + 'a \<Rightarrow> ('a \<Rightarrow> exn + 'b) \<Rightarrow> exn + 'b" where
  "ebind m f = (case m of Inl e \<Rightarrow> Inl e | Inr x \<Rightarrow> f x)"

definition py_assert :: "bool \<Rightarrow> string \<Rightarrow> exn + unit" where
  "py_assert c msg = (if c then Inr () else Inl (AssertionError msg))"

definition py_index :: "'a list \<Rightarrow> nat \<Rightarrow> exn + 'a" where
  "py_index xs i = (if i < length xs then Inr (xs ! i) else Inl (IndexError ''index out of range''))"

fun emap :: "('a \<Rightarrow> exn + 'b) \<Rightarrow> 'a list \<Rightarrow> exn + 'b list" where
  "emap f [] = Inr []"
| "emap f (x # xs) =
     (case f x of
        Inl e \<Rightarrow> Inl e
      | Inr y \<Rightarrow> (case emap f xs of Inl e \<Rightarrow> Inl e | Inr ys \<Rightarrow> Inr (y # ys)))"

text \<open>\<^verbatim>\<open>norm(v, p)\<close> of numpy on a one-dimensional array, for a positive integer order.\<close>

definition pnorm :: "nat \<Rightarrow> real list \<Rightarrow> real" where
  "pnorm p v = root p (sum_list (map (\<lambda>x. \<bar>x\<bar> ^ p) v))"

definition vec_sub :: "real list \<Rightarrow> real list \<Rightarrow> real list" where
  "vec_sub u v = map (\<lambda>(a, b). a - b) (zip u v)"

text \<open>
  A point or direction of the plane (a two-coordinate Point or array of the source),
  with the arithmetic of numpy arrays: componentwise sum and difference, and scaling
  by a number.
\<close>

datatype vec2 = Vec2 (vx: real) (vy: real)

instantiation vec2 :: real_vector
begin

definition zero_vec2 :: vec2 where
  "zero_vec2 = Vec2 0 0"

definition plus_vec2 :: "vec2 \<Rightarrow> vec2 \<Rightarrow> vec2" where
  "plus_vec2 u v = Vec2 (vx u + vx v) (vy u + vy v)"

definition uminus_vec2 :: "vec2 \<Rightarrow> vec2" where
  "uminus_vec2 u = Vec2 (- vx u) (- vy u)"

definition minus_vec2 :: "vec2 \<Rightarrow> vec2 \<Rightarrow> vec2" where
  "minus_vec2 u v = Vec2 (vx u - vx v) (vy u - vy v)"

definition scaleR_vec2 :: "real \<Rightarrow> vec2 \<Rightarrow> vec2" where
  "scaleR_vec2 r u = Vec2 (r * vx u) (r * vy u)"

instance
  by standard
    (simp_all add: zero_vec2_def plus_vec2_def uminus_vec2_def minus_vec2_def scaleR_vec2_def
       algebra_simps)

end

definition vnorm :: "nat \<Rightarrow> vec2 \<Rightarrow> real" where
  "vnorm p v = pnorm p [vx v, vy v]"

text \<open>\<^verbatim>\<open>math.atan2(y, x)\<close>: the angle of the point \<open>(x, y)\<close> in \<open>(-pi, pi]\<close>, and 0 at the origin.\<close>

definition atan2 :: "real \<Rightarrow> real \<Rightarrow> real" where
  "atan2 y x =
     (if 0 < x then arctan (y / x)
      else if x < 0 then (if 0 \<le> y then arctan (y / x) + pi else arctan (y / x) - pi)
      else if 0 < y then pi / 2
      else if y < 0 then - (pi / 2)
      else 0)"

subsection \<open>dx\_scaled\_2D (lines 645--681)\<close>

record dx_scaled_2D =
  dx :: real
  x_scale :: real
  y_scale :: real

text \<open>\<^verbatim>\<open>__init__\<close>. The file imports true division, so \<open>/\<close> is division of reals.\<close>

definition dx_scaled_2D_init :: "real \<Rightarrow> real \<times> real \<Rightarrow> exn + dx_scaled_2D" where
  "dx_scaled_2D_init d scale =
     (if 0 < fst scale \<and> 0 < snd scale then
        (let m = max (fst scale) (snd scale) in
         Inr \<lparr>dx = d, x_scale = fst scale / m, y_scale = snd scale * 1 / fst scale / m\<rparr>)
      else Inl (AssertionError []))"

text \<open>\<^verbatim>\<open>__call__\<close> (and \<^verbatim>\<open>__mul__\<close>, which is the same function) on a direction vector.\<close>

definition dx_scaled_2D_call :: "dx_scaled_2D \<Rightarrow> vec2 \<Rightarrow> vec2" where
  "dx_scaled_2D_call s dir =
     (let angle = 2 * atan2 (vy dir) (vx dir) / pi in
      (angle * y_scale s + (1 - angle)) *\<^sub>R (dx s *\<^sub>R dir))"

text \<open>\<^verbatim>\<open>__call__\<close> on a number: subscripting it raises TypeError, which is caught.\<close>

definition dx_scaled_2D_call_scalar :: "dx_scaled_2D \<Rightarrow> real \<Rightarrow> real" where
  "dx_scaled_2D_call_scalar s k = dx s * k"

text \<open>\<^verbatim>\<open>__rmul__\<close> on a direction vector, and on a number.\<close>

definition dx_scaled_2D_rmul :: "dx_scaled_2D \<Rightarrow> vec2 \<Rightarrow> vec2" where
  "dx_scaled_2D_rmul s dir =
     (let angle = 2 * atan2 (vy dir) (vx dir) / pi in
      (angle * y_scale s + (1 - angle)) *\<^sub>R (dx s *\<^sub>R dir))"

definition dx_scaled_2D_rmul_scalar :: "dx_scaled_2D \<Rightarrow> real \<Rightarrow> exn + dx_scaled_2D" where
  "dx_scaled_2D_rmul_scalar s k = dx_scaled_2D_init (dx s * k) (1, y_scale s)"

subsection \<open>fixedpoint\_nD and fixedpoint\_2D (lines 1139--1268)\<close>

record Point =
  coordnames :: "string list"
  coordarray :: "real list"
  pt_normord :: int

record fixedpoint =
  dimension :: nat
  fp_coords :: "string list"
  eps :: real
  D :: "real list list"
  normord :: int
  evals :: "complex list"
  evecs :: "real list list"
  point :: Point
  classification :: string
  stability :: string
  degenerate :: bool

text \<open>numpy's \<^verbatim>\<open>isreal\<close> and \<^verbatim>\<open>sign\<close> on a complex number.\<close>

definition np_isreal :: "complex \<Rightarrow> bool" where
  "np_isreal z = (Im z = 0)"

definition np_sign :: "complex \<Rightarrow> complex" where
  "np_sign z = (if Re z \<noteq> 0 then of_real (sgn (Re z)) else of_real (sgn (Im z)))"

text \<open>\<^verbatim>\<open>fixedpoint_nD._classify\<close> always raises.\<close>

definition fixedpoint_nD_classify :: "complex list \<Rightarrow> real \<Rightarrow> exn + string \<times> string \<times> bool" where
  "fixedpoint_nD_classify evs e =
     Inl (NotImplementedError ''Not implemented for n dimensions where n != 2'')"

text \<open>
  \<^verbatim>\<open>fixedpoint_2D._classify\<close> reads \<^verbatim>\<open>self.evals\<close> and \<^verbatim>\<open>self.eps\<close> and sets
  \<^verbatim>\<open>classification\<close>, \<^verbatim>\<open>stability\<close> and \<^verbatim>\<open>degenerate\<close>: the three values are the result.
\<close>

definition fixedpoint_2D_classify :: "complex list \<Rightarrow> real \<Rightarrow> exn + string \<times> string \<times> bool" where
  "fixedpoint_2D_classify evs e =
     ebind (py_index evs 0) (\<lambda>e0.
     ebind (py_index evs 1) (\<lambda>e1.
       let real_evals = (np_isreal e0, np_isreal e1);
           equal_evals = (cmod (e0 - e1) < e);
           zero_evals = (cmod e0 < e, cmod e1 < e);
           cls = (if fst real_evals \<and> snd real_evals then
                    (let sign_evals = (np_sign e0, np_sign e1) in
                     if fst sign_evals = snd sign_evals then ''node'' else ''saddle'')
                  else ''spiral'');
           real_parts = map Re evs;
           stab = (if list_all (\<lambda>r. r < 0) real_parts then ''s''
                   else if list_all (\<lambda>r. r = 0) real_parts then ''c''
                   else ''u'')
       in Inr (cls, stab, (fst zero_evals \<or> snd zero_evals) \<or> equal_evals)))"

text \<open>
  \<^verbatim>\<open>_get_eigen\<close>. \<open>eig\<close> is numpy's eigen-solver, a parameter: it returns the
  eigenvalues and the array whose columns are the eigenvectors. \<open>point_normord\<close> is
  the norm order a freshly built Point carries. Where the source divides a vector by a
  zero norm, numpy yields non-numbers; the model stops there with a fault of its own.
\<close>

definition get_eigen ::
  "(real list list \<Rightarrow> complex list \<times> complex list list) \<Rightarrow> int \<Rightarrow> real list list \<Rightarrow> nat \<Rightarrow> int
     \<Rightarrow> exn + complex list \<times> real list list" where
  "get_eigen eig point_normord Dm dimn nord =
     (case eig Dm of (evs, evecs_array) \<Rightarrow>
        ebind (emap (\<lambda>i. emap (\<lambda>j. ebind (py_index evecs_array j) (\<lambda>row.
                                      ebind (py_index row i) (\<lambda>c. Inr (Re c)))) [0..<dimn]) [0..<dimn])
          (\<lambda>evecs_pt.
        ebind (emap (\<lambda>ev.
                 ebind (py_assert (point_normord = nord) ''Mismatching norm order for eigenvector'') (\<lambda>_.
                   let n = pnorm (nat nord) ev in
                   if n \<noteq> 1 then
                     (if n = 0 then Inl (FloatingPointFault ''division by zero'')
                      else Inr (map (\<lambda>x. x / n) ev))
                   else Inr ev)) evecs_pt)
          (\<lambda>evecs_normed. Inr (evs, evecs_normed))))"

text \<open>\<^verbatim>\<open>list.index\<close>.\<close>

definition index_of :: "string list \<Rightarrow> string \<Rightarrow> exn + nat" where
  "index_of vs v =
     (if v \<in> set vs then Inr (length (takeWhile (\<lambda>w. w \<noteq> v) vs))
      else Inl (ValueError ''list.index(x): x not in list''))"

text \<open>
  \<^verbatim>\<open>fixedpoint_nD.__init__\<close>. \<open>classify\<close> is the \<^verbatim>\<open>_classify\<close> method of the object's
  class. \<open>jacD\<close> is \<^verbatim>\<open>asarray(jac(**jac_test_arg))\<close> (\<open>None\<close> when no \<open>jac\<close> was
  passed), \<open>rhs\<close> is \<^verbatim>\<open>array(gen.Rhs(0, pt, gen.pars))\<close>.
\<close>

definition fixedpoint_nD_init ::
  "(complex list \<Rightarrow> real \<Rightarrow> exn + string \<times> string \<times> bool)
     \<Rightarrow> (real list list \<Rightarrow> complex list \<times> complex list list) \<Rightarrow> int
     \<Rightarrow> nat \<Rightarrow> string list \<Rightarrow> real list
     \<Rightarrow> Point \<Rightarrow> string list option \<Rightarrow> real list list option \<Rightarrow> int \<Rightarrow> real
     \<Rightarrow> exn + fixedpoint" where
  "fixedpoint_nD_init classify eig point_normord gen_dimension gen_vars rhs pt coords jacD nord e =
     (let dimn = (case coords of None \<Rightarrow> gen_dimension | Some cs \<Rightarrow> length cs);
          fpc = (case coords of None \<Rightarrow> gen_vars | Some cs \<Rightarrow> sort cs)
      in
      case jacD of
        None \<Rightarrow> Inl (NotImplementedError [])
      | Some Dm \<Rightarrow>
          ebind (py_assert (length Dm = dimn \<and> list_all (\<lambda>row. length row = dimn) Dm) []) (\<lambda>_.
          ebind (py_assert (0 < nord) []) (\<lambda>_.
          ebind (py_assert (pt_normord pt = nord) ''Mismatching norm order for point'') (\<lambda>_.
          ebind (get_eigen eig point_normord Dm dimn nord) (\<lambda>(evs, evcs).
            if dimn \<noteq> length evs then
              Inl (ValueError ''Dimension of %ssystem must equal number of eigenvalues'')
            else if dimn \<noteq> length evcs then
              Inl (ValueError ''Dimension of %ssystem must equal number of eigenvectors'')
            else if gen_dimension \<noteq> length (coordarray pt) then
              Inl (ValueError ''Dimension of full system must equal dimension of fixed point'')
            else
              ebind (emap (index_of gen_vars) fpc) (\<lambda>var_ixs.
              ebind (emap (py_index rhs) var_ixs) (\<lambda>fp_evaluated.
                if list_ex (\<lambda>fp_i. \<bar>fp_i\<bar> > e) fp_evaluated then
                  Inl (ValueError
                    ''Given point is not a fixed point of the system at given tolerance'')
                else
                  ebind (classify evs e) (\<lambda>(cls, stab, deg).
                    Inr \<lparr>dimension = dimn, fp_coords = fpc, eps = e, D = Dm, normord = nord,
                         evals = evs, evecs = evcs, point = pt, classification = cls,
                         stability = stab, degenerate = deg\<rparr>))))))))"

text \<open>\<^verbatim>\<open>fixedpoint_2D.__init__\<close>: the base constructor with the 2D classifier, then the
  dimension check.\<close>

definition fixedpoint_2D_init ::
  "(real list list \<Rightarrow> complex list \<times> complex list list) \<Rightarrow> int
     \<Rightarrow> nat \<Rightarrow> string list \<Rightarrow> real list
     \<Rightarrow> Point \<Rightarrow> string list option \<Rightarrow> real list list option \<Rightarrow> int \<Rightarrow> real
     \<Rightarrow> exn + fixedpoint" where
  "fixedpoint_2D_init eig point_normord gen_dimension gen_vars rhs pt coords jacD nord e =
     ebind (fixedpoint_nD_init fixedpoint_2D_classify eig point_normord gen_dimension gen_vars
              rhs pt coords jacD nord e) (\<lambda>fp.
       if dimension fp \<noteq> 2 then Inl (TypeError ''This class is for 2D systems only'')
       else Inr fp)"

subsection \<open>find\_fixedpoints (lines 425--533) and base\_n\_counter (lines 2343--2388)\<close>

text \<open>A float that may be infinite or not a number; \<^verbatim>\<open>isfinite\<close> tells the cases apart.\<close>

datatype fl = Finite real | NonFinite

fun isfinite :: "fl \<Rightarrow> bool" where
  "isfinite (Finite x) = True"
| "isfinite NonFinite = False"

fun fl_val :: "fl \<Rightarrow> real" where
  "fl_val (Finite x) = x"
| "fl_val NonFinite = 0"

text \<open>An entry of the \<^verbatim>\<open>subdomain\<close> dictionary: a range (a tuple or list) or a fixed value.\<close>

datatype dom = Range fl fl | Fixed real

text \<open>\<^verbatim>\<open>linspace(a, b, n)\<close> of numpy.\<close>

definition linspace :: "real \<Rightarrow> real \<Rightarrow> int \<Rightarrow> real list" where
  "linspace a b n =
     (if n = 1 then [a]
      else map (\<lambda>i. a + real i * ((b - a) / real_of_int (n - 1))) [0..<nat n])"

text \<open>
  \<^verbatim>\<open>base_n_counter.inc\<close>: the digits are scanned from index 0; the first digit below
  \<^verbatim>\<open>_maxval\<close> is incremented, every digit passed on the way is reset to 0, and when all
  digits are passed the counter is all zeros.
\<close>

fun inc :: "int \<Rightarrow> int list \<Rightarrow> int list" where
  "inc maxval [] = []"
| "inc maxval (c # cs) = (if c < maxval then (c + 1) # cs else 0 # inc maxval cs)"

text \<open>
  The first loop over the sub-domain (lines 441--452): it counts the ranges, refuses a
  range with a non-finite end, and collects the fixed values.
\<close>

fun count_ranges :: "(string \<times> dom) list \<Rightarrow> exn + nat \<times> (string \<times> real) list" where
  "count_ranges [] = Inr (0, [])"
| "count_ranges ((xname, Range lo hi) # rest) =
     (if \<not> (isfinite lo \<and> isfinite hi) then
        Inl (RuntimeError ''Must specify a finite range for %s'')
      else ebind (count_ranges rest) (\<lambda>(Dn, fixed_vars). Inr (Suc Dn, fixed_vars)))"
| "count_ranges ((xname, Fixed v) # rest) =
     ebind (count_ranges rest) (\<lambda>(Dn, fixed_vars). Inr (Dn, (xname, v) # fixed_vars))"

text \<open>
  The loop of lines 457--463 that lowers the resolution \<open>n\<close> until \<open>n ** D\<close> is at
  most \<open>maxsearch\<close>. The source raises a string there.
\<close>

function reduce_n :: "int \<Rightarrow> nat \<Rightarrow> real \<Rightarrow> exn + int" where
  "reduce_n n Dn maxsearch =
     (if real_of_int (n ^ Dn) > maxsearch then
        (if n - 1 < 3 then Inl (StringException ''maxsearch too small'')
         else reduce_n (n - 1) Dn maxsearch)
      else Inr n)"
  by pat_completeness auto
termination
  by (relation "measure (\<lambda>(n, Dn, maxsearch). nat n)") auto

declare reduce_n.simps [simp del]

fun is_Range :: "dom \<Rightarrow> bool" where
  "is_Range (Range lo hi) = True"
| "is_Range (Fixed v) = False"

text \<open>The ranges of the sub-domain in the order of their names (lines 504--509).\<close>

fun range_items :: "(string \<times> dom) list \<Rightarrow> (string \<times> real \<times> real) list" where
  "range_items [] = []"
| "range_items ((xname, Range lo hi) # rest) = (xname, fl_val lo, fl_val hi) # range_items rest"
| "range_items ((xname, Fixed v) # rest) = range_items rest"

text \<open>
  The seeds of the solver (lines 510--513 and 532): \<open>k\<close> seeds, read off the rows of
  \<^verbatim>\<open>x0_coords\<close> at the digits of the counter, which is incremented after each seed.
\<close>

fun grid_seeds :: "real list list \<Rightarrow> int \<Rightarrow> nat \<Rightarrow> int list \<Rightarrow> exn + real list list" where
  "grid_seeds x0_coords maxval 0 d_posns = Inr []"
| "grid_seeds x0_coords maxval (Suc k) d_posns =
     ebind (emap (\<lambda>(row, c). py_index row (nat c)) (zip x0_coords d_posns)) (\<lambda>x0.
     ebind (grid_seeds x0_coords maxval k (inc maxval d_posns)) (\<lambda>rest. Inr (x0 # rest)))"

text \<open>The bounds check of lines 523--525; \<open>ok and ...\<close> does not index once \<open>ok\<close> is false.\<close>

fun bounds_ok :: "(string \<Rightarrow> real \<Rightarrow> bool) \<Rightarrow> string list \<Rightarrow> real list \<Rightarrow> nat \<Rightarrow> bool \<Rightarrow> exn + bool" where
  "bounds_ok contains [] xinf_val ix ok = Inr ok"
| "bounds_ok contains (xname # rest) xinf_val ix ok =
     (if ok then
        ebind (py_index xinf_val ix) (\<lambda>v. bounds_ok contains rest xinf_val (Suc ix) (contains xname v))
      else bounds_ok contains rest xinf_val (Suc ix) False)"

text \<open>
  The search loop (lines 512--532) over the seeds. \<open>fsolve\<close> stands for the call of
  scipy's solver on \<^verbatim>\<open>Rhs_wrap\<close> from a seed: it returns the array \<^verbatim>\<open>res[0]\<close> and the
  flag \<^verbatim>\<open>res[2]\<close>. \<open>contains xname v\<close> is the test
  \<^verbatim>\<open>gen.variables[xname].depdomain.contains(v) is not notcontained\<close>. The state is
  the list \<^verbatim>\<open>fps\<close> of accepted roots and the list \<^verbatim>\<open>fp_listdict\<close> of returned points.
\<close>

fun search_loop ::
  "(real list \<Rightarrow> fl list \<times> int) \<Rightarrow> (string \<Rightarrow> real \<Rightarrow> bool) \<Rightarrow> string list
     \<Rightarrow> (string \<times> real) list \<Rightarrow> real \<Rightarrow> real list list
     \<Rightarrow> real list list \<Rightarrow> (string \<times> real) list list \<Rightarrow> exn + (string \<times> real) list list" where
  "search_loop fsolve contains x0_names fixed_vars e [] fps fp_listdict = Inr fp_listdict"
| "search_loop fsolve contains x0_names fixed_vars e (x0 # seeds) fps fp_listdict =
     (let res = fsolve x0; xinf = fst res in
      if list_all isfinite xinf then
        (let xinf_val = map fl_val xinf in
         if length fps = 0 \<or> \<not> list_ex (\<lambda>fp. pnorm 2 (vec_sub fp xinf_val) < e) fps then
           ebind (bounds_ok contains x0_names xinf_val 0 (snd res = 1)) (\<lambda>ok.
             if ok then
               search_loop fsolve contains x0_names fixed_vars e seeds (fps @ [xinf_val])
                 (fp_listdict @ [zip x0_names xinf_val @ fixed_vars])
             else search_loop fsolve contains x0_names fixed_vars e seeds fps fp_listdict)
         else search_loop fsolve contains x0_names fixed_vars e seeds fps fp_listdict)
      else search_loop fsolve contains x0_names fixed_vars e seeds fps fp_listdict)"

text \<open>
  \<open>find_fixedpoints\<close>, in two parts. A dictionary is an association list;
  \<open>gen_xdomain\<close> is \<^verbatim>\<open>gen.xdomain\<close> and \<open>gen_vars\<close> is \<^verbatim>\<open>gen.funcspec.vars\<close>. The
  translation of names between the user's and the generator's spelling is the identity
  here. A negative resolution makes \<^verbatim>\<open>zeros((D, n))\<close> raise.

  The first part (lines 432--463 and 497--511) ends with the names of the free
  variables, the fixed values and the seeds the search loop will visit.
\<close>

definition find_fixedpoints_seeds ::
  "(string \<times> dom) list \<Rightarrow> string list \<Rightarrow> (string \<times> dom) list option \<Rightarrow> int \<Rightarrow> real
     \<Rightarrow> exn + string list \<times> (string \<times> real) list \<times> real list list" where
  "find_fixedpoints_seeds gen_xdomain gen_vars subdomain n maxsearch =
     ebind (case subdomain of
              None \<Rightarrow> Inr (filter (\<lambda>(k, d). k \<in> set gen_vars) gen_xdomain)
            | Some sd \<Rightarrow>
                ebind (py_assert (set (map fst sd) = set gen_vars) []) (\<lambda>_. Inr sd)) (\<lambda>sd.
     ebind (count_ranges sd) (\<lambda>(Dn, fixed_vars).
     ebind (reduce_n n Dn maxsearch) (\<lambda>n'.
       if n' < 0 then Inl (ValueError ''negative dimensions are not allowed'')
       else
         (let items = range_items (sort_key fst sd);
              x0_names = map fst items;
              x0_coords = map (\<lambda>(xname, lo, hi). linspace lo hi n') items
          in
          ebind (grid_seeds x0_coords (n' - 1) (nat (n' ^ Dn)) (replicate Dn 0)) (\<lambda>seeds.
            Inr (x0_names, fixed_vars, seeds))))))"

text \<open>The second part is the search loop from empty lists; its result is returned.\<close>

definition find_fixedpoints ::
  "(real list \<Rightarrow> fl list \<times> int) \<Rightarrow> (string \<Rightarrow> real \<Rightarrow> bool)
     \<Rightarrow> (string \<times> dom) list \<Rightarrow> string list \<Rightarrow> (string \<times> dom) list option
     \<Rightarrow> int \<Rightarrow> real \<Rightarrow> real \<Rightarrow> exn + (string \<times> real) list list" where
  "find_fixedpoints fsolve contains gen_xdomain gen_vars subdomain n maxsearch e =
     ebind (find_fixedpoints_seeds gen_xdomain gen_vars subdomain n maxsearch)
       (\<lambda>(x0_names, fixed_vars, seeds).
          search_loop fsolve contains x0_names fixed_vars e seeds [] [])"

text \<open>
  The sub-domain that the search works on (lines 433--435), and the number \<^verbatim>\<open>D\<close> that
  lines 441--446 arrive at when every range is finite: the number of its entries that
  are ranges.
\<close>

definition subdomain_used ::
  "(string \<times> dom) list \<Rightarrow> string list \<Rightarrow> (string \<times> dom) list option \<Rightarrow> (string \<times> dom) list" where
  "subdomain_used gen_xdomain gen_vars subdomain =
     (case subdomain of
        None \<Rightarrow> filter (\<lambda>(k, d). k \<in> set gen_vars) gen_xdomain
      | Some sd \<Rightarrow> sd)"

definition free_dims :: "(string \<times> dom) list \<Rightarrow> string list \<Rightarrow> (string \<times> dom) list option \<Rightarrow> nat" where
  "free_dims gen_xdomain gen_vars subdomain =
     length (filter (\<lambda>(k, d). is_Range d) (subdomain_used gen_xdomain gen_vars subdomain))"

subsection \<open>Post-processing of point sets (lines 2391--2425)\<close>

text \<open>
  Modelled from the spec: \<^verbatim>\<open>Interval.contains\<close>. The class Interval is not among the
  files of the repository given here. An interval is its pair of end points, and
  \<open>interval_contains iv v\<close> is the test \<^verbatim>\<open>iv.contains(v) is not notcontained\<close>: the
  value lies in the closed interval.
\<close>

definition interval_contains :: "real \<times> real \<Rightarrow> real \<Rightarrow> bool" where
  "interval_contains iv v = (fst iv \<le> v \<and> v \<le> snd iv)"

text \<open>
  \<open>filter_close_points\<close>: for every index \<open>i\<close> and every later index \<open>j\<close> whose
  point is closer than \<open>e\<close> to point \<open>i\<close>, \<open>j\<close> is removed from the list of
  remaining indices (an index already removed is skipped). The points at the remaining
  indices are returned.
\<close>

definition filter_close_points :: "vec2 list \<Rightarrow> real \<Rightarrow> nat \<Rightarrow> vec2 list" where
  "filter_close_points pts e nord =
     (let remaining =
            fold (\<lambda>i rem.
                    fold (\<lambda>j rem. if vnorm nord (pts ! i - pts ! j) < e then remove1 j rem else rem)
                      [i + 1..<length pts] rem)
              [0..<length pts] [0..<length pts]
      in map (\<lambda>k. pts ! k) remaining)"

definition filter_NaN :: "(fl \<times> fl) list \<Rightarrow> vec2 list" where
  "filter_NaN pts =
     map (\<lambda>(a, b). Vec2 (fl_val a) (fl_val b)) (filter (\<lambda>(a, b). isfinite a \<and> isfinite b) pts)"

definition check_bounds :: "vec2 list \<Rightarrow> real \<times> real \<Rightarrow> real \<times> real \<Rightarrow> bool" where
  "check_bounds sol_array xinterval yinterval =
     list_all (\<lambda>p. interval_contains xinterval (vx p) \<and> interval_contains yinterval (vy p))
       sol_array"

definition crop_2D :: "vec2 list \<Rightarrow> real \<times> real \<Rightarrow> real \<times> real \<Rightarrow> vec2 list" where
  "crop_2D sol_array xinterval yinterval =
     filter (\<lambda>p. interval_contains xinterval (vx p) \<and> interval_contains yinterval (vy p))
       sol_array"

subsection \<open>find\_nullclines (lines 35--421)\<close>

text \<open>
  The one-dimensional solves of the grid search go through \<^verbatim>\<open>_xinf_ND\<close>, which wraps
  scipy's solver and turns every failure into NaN. The solver is a parameter
  \<open>xinf\<close>: it is told which of the four residual functions is solved, the start value
  and the value of the other variable.
\<close>

datatype residual = Xdot_y | Ydot_y | Ydot_x | Xdot_x

text \<open>
  \<^verbatim>\<open>max_step\<close>: the integer 0, \<^verbatim>\<open>None\<close>, or a dictionary with a step for each of the
  two variables.
\<close>

datatype max_step = MaxStepZero | MaxStepNone | MaxStepDict real real

text \<open>\<^verbatim>\<open>xs[::k]\<close> for a positive step.\<close>

fun stride :: "nat \<Rightarrow> 'a list \<Rightarrow> 'a list" where
  "stride k [] = []"
| "stride k (x # xs) = x # stride k (drop (k - 1) xs)"

text \<open>
  The continuation capability (PyCont) is a parameter: a curve object of some type
  \<open>'c\<close> with its \<^verbatim>\<open>forward\<close> and \<^verbatim>\<open>backward\<close> steps, which may raise, and its
  \<^verbatim>\<open>new_sol_segment\<close> and \<^verbatim>\<open>sol\<close> point arrays.
\<close>

record 'c continuation =
  newCurve :: "bool \<Rightarrow> real \<times> real \<Rightarrow> max_step \<Rightarrow> 'c"
  forward :: "'c \<Rightarrow> exn + 'c"
  backward :: "'c \<Rightarrow> exn + 'c"
  new_sol_segment :: "'c \<Rightarrow> vec2 list"
  sol :: "'c \<Rightarrow> vec2 list"

text \<open>
  One of the four stepping loops (for instance lines 288--301): step, add
  \<^verbatim>\<open>loop_step = 5\<close> to the point count, and stop when the new segment leaves the
  intervals or the count exceeds \<^verbatim>\<open>max_num_points\<close>.
\<close>

function cont_loop ::
  "('c \<Rightarrow> exn + 'c) \<Rightarrow> ('c \<Rightarrow> vec2 list) \<Rightarrow> real \<times> real \<Rightarrow> real \<times> real \<Rightarrow> int \<Rightarrow> int \<Rightarrow> 'c
     \<Rightarrow> exn + 'c" where
  "cont_loop step seg xinterval yinterval max_num_points num_points P =
     (case step P of
        Inl e \<Rightarrow> Inl e
      | Inr P' \<Rightarrow>
          if \<not> check_bounds (seg P') xinterval yinterval \<or> num_points + 5 > max_num_points
          then Inr P'
          else cont_loop step seg xinterval yinterval max_num_points (num_points + 5) P')"
  by pat_completeness auto
termination
  by (relation "measure (\<lambda>(step, seg, xi, yi, max_num_points, num_points, P).
          nat (max_num_points + 5 - num_points))") auto

declare cont_loop.simps [simp del]

text \<open>
  The choice of the first point of a continuation (for instance lines 240--259) and the
  refinement of one nullcline (lines 260--318, and 341--398 for the other variable).
\<close>

definition clamp_init :: "real \<times> real \<Rightarrow> real \<Rightarrow> real" where
  "clamp_init d v = (if v < fst d then fst d else if v > snd d then snd d else v)"

definition cont_init ::
  "vec2 list \<Rightarrow> (real \<times> real) list option \<Rightarrow> real \<times> real \<Rightarrow> real \<times> real \<Rightarrow> real \<times> real" where
  "cont_init null fps x_dom y_dom =
     (let init =
            (if length null > 1 then (vx (null ! 1), vy (null ! 1))
             else if length null = 1 then (vx (null ! 0), vy (null ! 0))
             else
               (case fps of
                  Some (fp # rest) \<Rightarrow> (fst fp + 1 / 10 ^ 5, snd fp + 1 / 10 ^ 5)
                | _ \<Rightarrow> ((fst x_dom + snd x_dom) / 2, (fst y_dom + snd y_dom) / 2)))
      in (clamp_init x_dom (fst init), clamp_init y_dom (snd init)))"

definition refine ::
  "'c continuation \<Rightarrow> bool \<Rightarrow> vec2 list \<Rightarrow> (real \<times> real) list option \<Rightarrow> real \<times> real \<Rightarrow> real \<times> real
     \<Rightarrow> real \<times> real \<Rightarrow> real \<times> real \<Rightarrow> max_step \<Rightarrow> int \<Rightarrow> exn + vec2 list" where
  "refine pc is_y null fps x_dom y_dom xinterval yinterval ms max_num_points =
     (let P = newCurve pc is_y (cont_init null fps x_dom y_dom) ms in
      ebind (cont_loop (forward pc) (new_sol_segment pc) xinterval yinterval max_num_points 0 P)
        (\<lambda>P1.
      ebind (cont_loop (backward pc) (new_sol_segment pc) xinterval yinterval max_num_points 0 P1)
        (\<lambda>P2. Inr (crop_2D (sol pc P2) xinterval yinterval))))"

text \<open>
  \<open>find_nullclines\<close>, in four definitions. \<open>gen_xdom\<close> and \<open>gen_ydom\<close> are the
  generator's domains of the two variables, \<open>fps\<close> lists the two coordinates of each
  known fixed point. The result is the pair of nullcline point arrays; plotting is not
  part of the model.

  Lines 128--135: a sub-domain that was not passed is taken from the generator when its
  variable is computed, and must then be finite.
\<close>

definition domain_or_default ::
  "(real \<times> real) option \<Rightarrow> bool \<Rightarrow> fl \<times> fl \<Rightarrow> exn + (real \<times> real) option" where
  "domain_or_default d wanted gen_dom =
     (case d of
        Some v \<Rightarrow> Inr (Some v)
      | None \<Rightarrow>
          if wanted then
            (if \<not> (isfinite (fst gen_dom) \<and> isfinite (snd gen_dom)) then
               Inl (PyDSTool_ExistError ''Must specify finite range for %s'')
             else Inr (Some (fl_val (fst gen_dom), fl_val (snd gen_dom))))
          else Inr None)"

text \<open>
  Lines 175--211: the grid search. It returns \<^verbatim>\<open>x_null_pts\<close> and \<^verbatim>\<open>y_null_pts\<close>.
\<close>

definition null_grid ::
  "(residual \<Rightarrow> real \<Rightarrow> real \<Rightarrow> fl) \<Rightarrow> string \<Rightarrow> string \<Rightarrow> string list \<Rightarrow> real \<times> real \<Rightarrow> real \<times> real
     \<Rightarrow> (real \<times> real) list option \<Rightarrow> int \<Rightarrow> (fl \<times> fl) list \<times> (fl \<times> fl) list" where
  "null_grid xinf xname yname do_vars x_d y_d fps n =
     (let x_range = linspace (fst x_d) (snd x_d) n;
          y_range = linspace (fst y_d) (snd y_d) n;
          add_pts_x = (case fps of None \<Rightarrow> [] | Some ps \<Rightarrow> map fst ps);
          add_pts_y = (case fps of None \<Rightarrow> [] | Some ps \<Rightarrow> map snd ps);
          step = nat \<lceil>real_of_int n / 10\<rceil>;
          y_null_pts =
            (if yname \<in> set do_vars then
               concat (map (\<lambda>x0.
                   map (\<lambda>y. (xinf Xdot_y x0 y, Finite y)) y_range
                   @ map (\<lambda>y. (Finite x0, xinf Ydot_y y x0)) y_range)
                 (add_pts_x @ stride step x_range))
             else []);
          x_null_pts =
            (if xname \<in> set do_vars then
               concat (map (\<lambda>y0.
                   map (\<lambda>x. (Finite x, xinf Ydot_x y0 x)) x_range
                   @ map (\<lambda>x. (xinf Xdot_x x y0, Finite y0)) x_range)
                 (add_pts_y @ stride step y_range))
             else [])
      in (x_null_pts, y_null_pts))"

text \<open>
  Lines 173--398, with both sub-domains known. A resolution of zero fails in the
  source when the grid is sliced, the step \<^verbatim>\<open>int(ceil(n/10.))\<close> being zero; a negative
  one is refused by \<^verbatim>\<open>linspace\<close>. Both are a \<^verbatim>\<open>ValueError\<close>.
\<close>

definition find_nullclines_on ::
  "(residual \<Rightarrow> real \<Rightarrow> real \<Rightarrow> fl) \<Rightarrow> 'c continuation \<Rightarrow> string \<Rightarrow> string \<Rightarrow> string list
     \<Rightarrow> real \<times> real \<Rightarrow> real \<times> real
     \<Rightarrow> (real \<times> real) list option \<Rightarrow> int \<Rightarrow> real option \<Rightarrow> max_step \<Rightarrow> int
     \<Rightarrow> exn + vec2 list \<times> vec2 list" where
  "find_nullclines_on xinf pc xname yname do_vars x_d y_d fps n xtol ms max_num_points =
     (if n \<le> 0 then Inl (ValueError ''slice step cannot be zero'')
      else
        (let xtl = (case xtol of None \<Rightarrow> 149012 / 10 ^ 13 | Some v \<Rightarrow> v);
             grid = null_grid xinf xname yname do_vars x_d y_d fps n;
             tol = 2 / 100;
             xwidth = \<bar>snd x_d - fst x_d\<bar>;
             ywidth = \<bar>snd y_d - fst y_d\<bar>;
             xinterval = (fst x_d - tol * xwidth, snd x_d + tol * xwidth);
             yinterval = (fst y_d - tol * ywidth, snd y_d + tol * ywidth);
             x_null = filter_close_points (crop_2D (filter_NaN (fst grid)) xinterval yinterval)
                        (xtl * 10) 2;
             y_null = filter_close_points (crop_2D (filter_NaN (snd grid)) xinterval yinterval)
                        (xtl * 10) 2
         in
         if ms = MaxStepZero then Inr (x_null, y_null)
         else
           ebind (if yname \<in> set do_vars
                  then refine pc True y_null fps x_d y_d xinterval yinterval ms max_num_points
                  else Inr y_null) (\<lambda>y_null1.
           ebind (if xname \<in> set do_vars
                  then refine pc False x_null fps x_d y_d xinterval yinterval ms max_num_points
                  else Inr x_null) (\<lambda>x_null1.
             Inr (x_null1, y_null1)))))"

definition find_nullclines ::
  "(residual \<Rightarrow> real \<Rightarrow> real \<Rightarrow> fl) \<Rightarrow> 'c continuation \<Rightarrow> fl \<times> fl \<Rightarrow> fl \<times> fl
     \<Rightarrow> string \<Rightarrow> string \<Rightarrow> (real \<times> real) option \<Rightarrow> (real \<times> real) option
     \<Rightarrow> (real \<times> real) list option \<Rightarrow> int \<Rightarrow> real option \<Rightarrow> max_step \<Rightarrow> int \<Rightarrow> string option
     \<Rightarrow> exn + vec2 list \<times> vec2 list" where
  "find_nullclines xinf pc gen_xdom gen_ydom xname yname x_dom y_dom fps n xtol ms
       max_num_points only_var =
     ebind (case only_var of
              None \<Rightarrow> Inr [xname, yname]
            | Some v \<Rightarrow>
                ebind (py_assert (v \<in> set [xname, yname])
                         ''only_var must be one of xname or yname'') (\<lambda>_. Inr [v])) (\<lambda>do_vars.
     ebind (domain_or_default x_dom (xname \<in> set do_vars) gen_xdom) (\<lambda>x_dom1.
     ebind (domain_or_default y_dom (yname \<in> set do_vars) gen_ydom) (\<lambda>y_dom1.
       case (x_dom1, y_dom1) of
         (Some x_d, Some y_d) \<Rightarrow>
           find_nullclines_on xinf pc xname yname do_vars x_d y_d fps n xtol ms max_num_points
       | _ \<Rightarrow> Inl (TypeError ''NoneType object is unsubscriptable''))))"

subsection \<open>find\_saddle\_manifolds (lines 684--1007) and perp (lines 540--545)\<close>

definition perp :: "vec2 \<Rightarrow> vec2" where
  "perp v = Vec2 (vy v) (- vx v)"

text \<open>
  The part of the generator the function reads and writes: the two exit events with
  their activation flag and direction, the parameters that place the two event surfaces,
  and the time span. Initial conditions and computed trajectories are not part of this
  state: the integrator is the parameter \<open>compute\<close>, which is given the generator, the
  initial condition and the direction code and answers \<open>None\<close> when the
  integration raises, and otherwise which of the two exit events was detected. The
  vector field is the parameter \<open>Rhs\<close>, the value of \<^verbatim>\<open>gen.Rhs(0, x, gen.pars)\<close>.
\<close>

record event =
  activeFlag :: bool
  evdir :: int

record gen =
  Gamma_out_plus :: "event option"
  Gamma_out_minus :: "event option"
  Gamma_out_plus_p :: vec2
  Gamma_out_plus_dp :: vec2
  Gamma_out_minus_p :: vec2
  Gamma_out_minus_dp :: vec2
  tdata :: "real \<times> real"

datatype branch = S | U

datatype dircode = F | B

datatype ic_arg = IcNone | IcPoint vec2 | IcPointset "(real \<times> vec2) list"

datatype ic_dx_arg = IcDxNone | IcDxNum real | IcDxObj dx_scaled_2D

definition dx_perp_eps :: real where
  "dx_perp_eps = 1 / 10 ^ 12"

definition test_fn ::
  "(gen \<Rightarrow> vec2 \<Rightarrow> dircode \<Rightarrow> (bool \<times> bool) option) \<Rightarrow> gen \<Rightarrow> dircode \<Rightarrow> vec2 \<Rightarrow> exn + real" where
  "test_fn compute g dc x =
     (case compute g x dc of
        None \<Rightarrow> Inl (RuntimeError ''Integration failed'')
      | Some (plus_hit, minus_hit) \<Rightarrow>
          if \<not> plus_hit then
            (if \<not> minus_hit then Inl (RuntimeError ''Did not reach Gamma surfaces'')
             else Inr (- 1))
          else
            (if \<not> minus_hit then Inr 1
             else Inl (RuntimeError ''Did not reach Gamma surfaces'')))"

definition onto_manifold ::
  "(gen \<Rightarrow> vec2 \<Rightarrow> dircode \<Rightarrow> (bool \<times> bool) option) \<Rightarrow> gen \<Rightarrow> real \<Rightarrow> nat
     \<Rightarrow> vec2 \<Rightarrow> real \<Rightarrow> vec2 \<Rightarrow> dircode \<Rightarrow> exn + vec2" where
  "onto_manifold compute g e nord x_ic dn normal_dir dc =
     (case fst (bisection (test_fn compute g dc) (vnorm nord)
                  (x_ic + dn *\<^sub>R normal_dir) (x_ic - dn *\<^sub>R normal_dir) e 100) of
        Inl ex \<Rightarrow>
          if is_AssertionError ex then
            Inl (RuntimeError
              ''dx_perp too small? +/- initial displacement did not straddle manifold'')
          else Inl ex
      | Inr p \<Rightarrow> Inr p)"

text \<open>
  The correction loops (lines 928--935 and 974--981): while \<open>dx_perp\<close> is above the
  floor, try the correction; a RuntimeError shrinks \<open>dx_perp\<close> by \<open>fac\<close> and binds
  the exception variable \<open>e\<close>; success leaves the loop. \<open>onto dn\<close> is the call of
  \<open>onto_manifold\<close> with perturbation \<open>dn\<close>. The result is the final
  \<open>dx_perp\<close>, whether \<open>e\<close> is bound, and the corrected point if there is one. The
  factor is between 0 and 1 at both loops (line 748 checks the configured one); the
  loop function repeats that check, which makes it total.
\<close>

lemma correction_measure:
  assumes "dx_perp_eps < d" and "\<not> 1 \<le> fac" and "\<not> fac \<le> 0"
  shows "0 < log (1 / fac) (d / dx_perp_eps)
         \<and> \<lceil>log (1 / fac) (d * fac / dx_perp_eps)\<rceil> < \<lceil>log (1 / fac) (d / dx_perp_eps)\<rceil>"
proof -
  have e: "0 < dx_perp_eps" by (simp add: dx_perp_eps_def)
  from assms have f: "0 < fac" "fac < 1" by simp_all
  then have b: "1 < 1 / fac" by simp
  from assms e have d: "0 < d" by linarith
  from f have lnf: "ln fac < 0" by simp
  have "log (1 / fac) fac = ln fac / ln (1 / fac)" by (simp add: log_def)
  also have "ln (1 / fac) = - ln fac" using f by (simp add: ln_div)
  finally have m1: "log (1 / fac) fac = - 1" using lnf by simp
  have "log (1 / fac) (d * fac / dx_perp_eps) = log (1 / fac) (d / dx_perp_eps * fac)"
    by (simp add: mult.commute)
  also have "\<dots> = log (1 / fac) (d / dx_perp_eps) + log (1 / fac) fac"
    using d e f by (intro log_mult_pos) auto
  finally have eq: "log (1 / fac) (d * fac / dx_perp_eps) = log (1 / fac) (d / dx_perp_eps) - 1"
    using m1 by simp
  from assms e have "1 < d / dx_perp_eps" by simp
  with b d e have pos: "0 < log (1 / fac) (d / dx_perp_eps)" by simp
  have "\<lceil>log (1 / fac) (d / dx_perp_eps) - 1\<rceil> = \<lceil>log (1 / fac) (d / dx_perp_eps)\<rceil> - 1"
    by linarith
  with pos eq show ?thesis by simp
qed

function correction ::
  "(real \<Rightarrow> exn + vec2) \<Rightarrow> real \<Rightarrow> real \<Rightarrow> bool \<Rightarrow> exn + real \<times> bool \<times> vec2 option" where
  "correction onto fac dxp e_bound =
     (if fac \<ge> 1 \<or> fac \<le> 0 then Inl (ValueError ''dx_perp_fac must be between 0 and 1'')
      else if dxp > dx_perp_eps then
        (case onto dxp of
           Inr x \<Rightarrow> Inr (dxp, e_bound, Some x)
         | Inl ex \<Rightarrow>
             if is_RuntimeError ex then correction onto fac (dxp * fac) True else Inl ex)
      else Inr (dxp, e_bound, None))"
  by pat_completeness auto
termination
  by (relation "measure (\<lambda>(onto, fac, dxp, e_bound). nat \<lceil>log (1 / fac) (dxp / dx_perp_eps)\<rceil>)")
    (simp_all add: correction_measure)

declare correction.simps [simp del]

text \<open>A dictionary as an association list: assignment replaces the entry of the key.\<close>

definition dict_set :: "'k \<Rightarrow> 'v \<Rightarrow> ('k \<times> 'v) list \<Rightarrow> ('k \<times> 'v) list" where
  "dict_set k v d = (k, v) # filter (\<lambda>kv. fst kv \<noteq> k) d"

text \<open>
  The growth loop of one direction (lines 952--996). \<open>rhs\<close> is the vector field at the
  current parameters, \<open>onto x_ic dn normal_dir\<close> the correction at the branch's
  integration direction, \<open>nrm\<close> the norm of the fixed point's order. The loop state is
  the arc length, the point count, the last point and flow vector, \<open>dx_perp\<close>, whether
  the exception variable is bound, and the dictionary \<open>piece\<close>; the loop returns
  \<open>dx_perp\<close>, the arc length, the binding flag and \<open>piece\<close>. Where the source
  divides by a zero norm, numpy yields non-numbers; the model stops there with a fault
  of its own. Printing an unbound exception variable raises a NameError.
\<close>

function grow ::
  "(vec2 \<Rightarrow> vec2) \<Rightarrow> (vec2 \<Rightarrow> real \<Rightarrow> vec2 \<Rightarrow> exn + vec2) \<Rightarrow> (vec2 \<Rightarrow> real)
     \<Rightarrow> real \<Rightarrow> dx_scaled_2D \<Rightarrow> real \<Rightarrow> int \<Rightarrow> vec2 list option \<Rightarrow> int \<Rightarrow> int \<Rightarrow> real
     \<Rightarrow> real \<Rightarrow> int \<Rightarrow> vec2 \<Rightarrow> vec2 \<Rightarrow> real \<Rightarrow> bool \<Rightarrow> (real \<times> vec2) list
     \<Rightarrow> exn + real \<times> real \<times> bool \<times> (real \<times> vec2) list" where
  "grow rhs onto nrm dxv dxscaled max_len max_pts other_pts w_sgn sgn_d dx_perp_default
      curve_len num_pts last_x last_f dxp e_bound piece =
     (if curve_len < max_len \<and> num_pts < max_pts then
        (if other_pts \<noteq> None \<and> list_ex (\<lambda>pt. nrm (last_x - pt) < dxv) (the other_pts) then
           Inr (dxp, curve_len, e_bound, piece)
         else
           (let f0 = real_of_int (- w_sgn) *\<^sub>R rhs last_x;
                f = (if sgn (vx f0) \<noteq> sgn (vx last_f) \<and> sgn (vy f0) \<noteq> sgn (vy last_f)
                     then - f0 else f0)
            in
            ebind (dx_scaled_2D_rmul_scalar dxscaled (real_of_int (w_sgn * sgn_d))) (\<lambda>step.
              if nrm f = 0 then Inl (FloatingPointFault ''division by zero'')
              else
                (let x_ic = last_x + dx_scaled_2D_call step f /\<^sub>R nrm f in
                 ebind (correction (\<lambda>dn. onto x_ic dn (perp (f /\<^sub>R nrm f))) (3 / 4)
                          dx_perp_default e_bound) (\<lambda>(dxp1, e_bound1, found).
                   if dxp1 \<le> dx_perp_eps then
                     (if e_bound1 then Inr (dxp1, curve_len, e_bound1, piece)
                      else Inl (NameError ''local variable e referenced before assignment''))
                   else
                     (case found of
                        None \<Rightarrow> Inl (NameError ''local variable x referenced before assignment'')
                      | Some x \<Rightarrow>
                          grow rhs onto nrm dxv dxscaled max_len max_pts other_pts w_sgn sgn_d
                            dx_perp_default (curve_len + nrm (x - last_x)) (num_pts + 1) x f dxp1
                            e_bound1
                            (dict_set (real_of_int sgn_d * (curve_len + nrm (x - last_x))) x
                               piece)))))))
      else Inr (dxp, curve_len, e_bound, piece))"
  by pat_completeness auto
termination
  by (relation "measure (\<lambda>(rhs, onto, nrm, dxv, dxscaled, max_len, max_pts, other_pts, w_sgn, sgn_d,
          dx_perp_default, curve_len, num_pts, last_x, last_f, dxp, e_bound, piece).
          nat (max_pts - num_pts))") auto

declare grow.simps [simp del]

text \<open>
  One direction (lines 908--996): the prediction and correction of the first point, then
  the growth loop. It starts from the state the previous direction left.
\<close>

definition start_direction ::
  "(vec2 \<Rightarrow> vec2) \<Rightarrow> (vec2 \<Rightarrow> real \<Rightarrow> vec2 \<Rightarrow> exn + vec2) \<Rightarrow> (vec2 \<Rightarrow> real)
     \<Rightarrow> real \<Rightarrow> dx_scaled_2D \<Rightarrow> real \<Rightarrow> int \<Rightarrow> vec2 list option \<Rightarrow> int \<Rightarrow> real
     \<Rightarrow> vec2 \<Rightarrow> vec2 \<Rightarrow> dx_scaled_2D \<Rightarrow> int
     \<Rightarrow> real \<times> real \<times> bool \<times> (real \<times> vec2) list
     \<Rightarrow> exn + real \<times> real \<times> bool \<times> (real \<times> vec2) list" where
  "start_direction rhs onto nrm dxv dxscaled max_len max_pts other_pts w_sgn dx_perp_fac
      ic f_ic ic_dx sgn_d st =
     (case st of (dxp, curve_len, e_bound, piece) \<Rightarrow>
        ebind (dx_scaled_2D_rmul_scalar ic_dx (real_of_int (w_sgn * sgn_d))) (\<lambda>step.
          if nrm f_ic = 0 then Inl (FloatingPointFault ''division by zero'')
          else
            (let x0_ic = ic + dx_scaled_2D_call step f_ic /\<^sub>R nrm f_ic;
                 f = real_of_int (- w_sgn) *\<^sub>R rhs x0_ic
             in
             if nrm f = 0 then Inl (FloatingPointFault ''division by zero'')
             else
               (let norm_to_flow = perp (f /\<^sub>R nrm f);
                    dx_perp_default = dxp
                in
                ebind (correction (\<lambda>dn. onto x0_ic dn norm_to_flow) dx_perp_fac dxp e_bound)
                  (\<lambda>(dxp1, e_bound1, found).
                     if dxp1 \<le> dx_perp_eps then
                       (if e_bound1 then Inl (RuntimeError ''Initial point did not converge'')
                        else Inl (NameError ''local variable e referenced before assignment''))
                     else
                       (case found of
                          None \<Rightarrow> Inl (NameError ''local variable x referenced before assignment'')
                        | Some x \<Rightarrow>
                            grow rhs onto nrm dxv dxscaled max_len max_pts other_pts w_sgn sgn_d
                              dx_perp_default (curve_len + nrm (x - ic)) 1 x f_ic dx_perp_default
                              e_bound1
                              (dict_set (real_of_int sgn_d * (curve_len + nrm (x - ic))) x
                                 piece)))))))"

fun directions_loop ::
  "(int \<Rightarrow> real \<times> real \<times> bool \<times> (real \<times> vec2) list
       \<Rightarrow> exn + real \<times> real \<times> bool \<times> (real \<times> vec2) list)
     \<Rightarrow> int list \<Rightarrow> real \<times> real \<times> bool \<times> (real \<times> vec2) list
     \<Rightarrow> exn + real \<times> real \<times> bool \<times> (real \<times> vec2) list" where
  "directions_loop body [] st = Inr st"
| "directions_loop body (sgn_d # rest) st = ebind (body sgn_d st) (directions_loop body rest)"

text \<open>
  The body of the loop over the requested branches (lines 832--1002), after the event
  surfaces have been placed. The state carried from one branch to the next is what the
  source's variables \<open>ic\<close>, \<open>ic_dx\<close>, \<open>dx_perp\<close> and \<open>e\<close> hold, and the
  dictionary \<open>manifold\<close>. From the second branch on \<open>ic_dx\<close> holds an instance,
  which line 890 wraps again; numpy's \<open>isreal\<close> accepts the instance, and the products
  of line 912 reach through the wrapper to the step of the wrapped instance, so the
  wrapper acts as an instance built from that step.
\<close>

type_synonym manifold = "(branch \<times> (real \<times> vec2) list) list"

definition branch_body ::
  "(gen \<Rightarrow> vec2 \<Rightarrow> dircode \<Rightarrow> (bool \<times> bool) option) \<Rightarrow> (gen \<Rightarrow> vec2 \<Rightarrow> vec2)
     \<Rightarrow> vec2 \<Rightarrow> vec2 \<Rightarrow> vec2 \<Rightarrow> real \<Rightarrow> nat \<Rightarrow> real \<Rightarrow> dx_scaled_2D \<Rightarrow> real \<times> real
     \<Rightarrow> real \<Rightarrow> int \<Rightarrow> vec2 list option \<Rightarrow> real \<Rightarrow> int list
     \<Rightarrow> gen \<Rightarrow> branch \<Rightarrow> ic_arg \<times> ic_dx_arg \<times> real \<times> bool \<times> manifold
     \<Rightarrow> exn + ic_arg \<times> ic_dx_arg \<times> real \<times> bool \<times> manifold" where
  "branch_body compute Rhs fp_point evec_s evec_u e nord dxv dxscaled rel_scale max_len max_pts
      other_pts dx_perp_fac directions g w st =
     (case st of (ic, ic_dx, dxp, e_bound, manifold) \<Rightarrow>
        (let w_sgn = (case w of S \<Rightarrow> - 1 | U \<Rightarrow> 1);
             integ_dircode = (case w of S \<Rightarrow> F | U \<Rightarrow> B);
             evec_other = (case w of S \<Rightarrow> evec_s | U \<Rightarrow> evec_u)
         in
         ebind (case ic_dx of
                  IcDxNone \<Rightarrow> Inr dxscaled
                | IcDxNum r \<Rightarrow> dx_scaled_2D_init r rel_scale
                | IcDxObj obj \<Rightarrow> dx_scaled_2D_init (dx obj) rel_scale) (\<lambda>ic_dx1.
         ebind (case ic of
                  IcNone \<Rightarrow> Inr (fp_point, real_of_int (- w_sgn) *\<^sub>R evec_other, 0)
                | IcPoint pt \<Rightarrow> Inr (pt, real_of_int (- w_sgn) *\<^sub>R Rhs g pt, 0)
                | IcPointset ps \<Rightarrow>
                    ebind (py_assert (length ps = 1) ''Only pass a length-1 pointset'') (\<lambda>_.
                      Inr (snd (ps ! 0), real_of_int (- w_sgn) *\<^sub>R Rhs g (snd (ps ! 0)),
                           \<bar>fst (ps ! 0)\<bar>))) (\<lambda>(ic1, f_ic, curve_len).
         ebind (directions_loop
                  (start_direction (Rhs g)
                     (\<lambda>x_ic dn normal_dir. onto_manifold compute g e nord x_ic dn normal_dir
                        integ_dircode)
                     (vnorm nord) dxv dxscaled max_len max_pts other_pts w_sgn dx_perp_fac
                     ic1 f_ic ic_dx1)
                  directions (dxp, curve_len, e_bound, [])) (\<lambda>(dxp1, curve_len1, e_bound1, piece).
           Inr (IcPoint ic1, IcDxObj ic_dx1, dxp1, e_bound1,
                dict_set w (sort_key fst piece) manifold))))))"

text \<open>Lines 849--874: the event directions, the surface parameters and the time span.\<close>

definition set_gamma :: "vec2 \<Rightarrow> vec2 \<Rightarrow> vec2 \<Rightarrow> real \<times> real \<Rightarrow> real \<Rightarrow> gen \<Rightarrow> branch \<Rightarrow> gen" where
  "set_gamma fp_point evec_s evec_u dx_gamma tmax g w =
     (let evec = (case w of S \<Rightarrow> evec_u | U \<Rightarrow> evec_s);
          p0_plus = fp_point + fst dx_gamma *\<^sub>R evec;
          p0_minus = fp_point - snd dx_gamma *\<^sub>R evec;
          evec_perp = perp evec
      in g\<lparr>Gamma_out_plus := map_option (\<lambda>ev. ev\<lparr>evdir := - 1\<rparr>) (Gamma_out_plus g),
           Gamma_out_minus := map_option (\<lambda>ev. ev\<lparr>evdir := 1\<rparr>) (Gamma_out_minus g),
           Gamma_out_plus_p := p0_plus, Gamma_out_plus_dp := evec_perp,
           Gamma_out_minus_p := p0_minus, Gamma_out_minus_dp := evec_perp,
           tdata := (0, tmax)\<rparr>)"

text \<open>
  The loop over \<open>which\<close>. An exception leaves the generator as the branch that raised
  it has set it.
\<close>

fun which_loop ::
  "(gen \<Rightarrow> branch \<Rightarrow> gen) \<Rightarrow> (gen \<Rightarrow> branch \<Rightarrow> 'st \<Rightarrow> exn + 'st) \<Rightarrow> branch list \<Rightarrow> 'st \<Rightarrow> gen
     \<Rightarrow> (exn + 'st) \<times> gen" where
  "which_loop setg body [] st g = (Inr st, g)"
| "which_loop setg body (w # ws) st g =
     (let g1 = setg g w in
      case body g1 w st of
        Inl ex \<Rightarrow> (Inl ex, g1)
      | Inr st1 \<Rightarrow> which_loop setg body ws st1 g1)"

text \<open>Lines 824--825 and 1003--1004: both activation flags are written.\<close>

definition set_active :: "bool \<Rightarrow> gen \<Rightarrow> gen" where
  "set_active b g =
     g\<lparr>Gamma_out_plus := map_option (\<lambda>ev. ev\<lparr>activeFlag := b\<rparr>) (Gamma_out_plus g),
       Gamma_out_minus := map_option (\<lambda>ev. ev\<lparr>activeFlag := b\<rparr>) (Gamma_out_minus g)\<rparr>"

text \<open>
  Lines 731--762, which raise before the generator is touched: the checks on the fixed
  point and the events, the eigenvectors by the sign of the first eigenvalue, the factor
  check, the step helper and the two offsets of the event surfaces. \<open>dx_gamma\<close> is a
  number, or a dictionary with the keys 1 and -1.
\<close>

datatype dx_gamma_arg = GammaNum real | GammaDict real real

definition vec2_of :: "real list \<Rightarrow> exn + vec2" where
  "vec2_of xs = ebind (py_index xs 0) (\<lambda>a. ebind (py_index xs 1) (\<lambda>b. Inr (Vec2 a b)))"

definition saddle_setup ::
  "fixedpoint \<Rightarrow> gen \<Rightarrow> real \<Rightarrow> dx_gamma_arg \<Rightarrow> (real \<times> real) option \<Rightarrow> real
     \<Rightarrow> exn + vec2 \<times> vec2 \<times> dx_scaled_2D \<times> (real \<times> real) \<times> (real \<times> real)" where
  "saddle_setup fp g dxv dx_gamma rel_scale dx_perp_fac =
     ebind (py_assert (classification fp = ''saddle'' \<and> \<not> degenerate fp) []) (\<lambda>_.
     ebind (py_index (evals fp) 0) (\<lambda>ev0.
     ebind (if Re ev0 < 0
            then ebind (py_index (evals fp) 1) (\<lambda>_.
                 ebind (py_index (evecs fp) 0) (\<lambda>es.
                 ebind (py_index (evecs fp) 1) (\<lambda>eu. Inr (es, eu))))
            else ebind (py_index (evals fp) 1) (\<lambda>_.
                 ebind (py_index (evals fp) 0) (\<lambda>_.
                 ebind (py_index (evecs fp) 1) (\<lambda>es.
                 ebind (py_index (evecs fp) 0) (\<lambda>eu. Inr (es, eu)))))) (\<lambda>(es, eu).
     ebind (py_assert (Gamma_out_plus g \<noteq> None) ''Detection event surface(s) not present'') (\<lambda>_.
     ebind (py_assert (Gamma_out_minus g \<noteq> None) ''Detection event surface(s) not present'') (\<lambda>_.
       if dx_perp_fac \<ge> 1 \<or> dx_perp_fac \<le> 0 then
         Inl (ValueError ''dx_perp_fac must be between 0 and 1'')
       else
         (let rel = (case rel_scale of None \<Rightarrow> (1, 1) | Some r \<Rightarrow> r) in
          ebind (dx_scaled_2D_init dxv rel) (\<lambda>dxscaled.
          ebind (vec2_of es) (\<lambda>evec_s.
          ebind (vec2_of eu) (\<lambda>evec_u.
            Inr (evec_s, evec_u, dxscaled, rel,
                 (case dx_gamma of GammaNum r \<Rightarrow> (r, r) | GammaDict a b \<Rightarrow> (a, b))))))))))))"

text \<open>
  \<open>find_saddle_manifolds\<close>. \<open>g\<close> is the generator of the fixed point. The result is
  what the call returns or raises, together with the generator as the call leaves it.
  Plotting and printing are not part of the model.
\<close>

definition find_saddle_manifolds ::
  "(gen \<Rightarrow> vec2 \<Rightarrow> dircode \<Rightarrow> (bool \<times> bool) option) \<Rightarrow> (gen \<Rightarrow> vec2 \<Rightarrow> vec2)
     \<Rightarrow> fixedpoint \<Rightarrow> gen \<Rightarrow> real \<Rightarrow> dx_gamma_arg \<Rightarrow> real \<Rightarrow> real \<Rightarrow> real \<Rightarrow> ic_arg \<Rightarrow> ic_dx_arg
     \<Rightarrow> int \<Rightarrow> int list \<Rightarrow> branch list \<Rightarrow> vec2 list option \<Rightarrow> (real \<times> real) option \<Rightarrow> real
     \<Rightarrow> (exn + manifold) \<times> gen" where
  "find_saddle_manifolds compute Rhs fp g dxv dx_gamma dxp tmax max_len ic ic_dx max_pts
      directions which other_pts rel_scale dx_perp_fac =
     (case saddle_setup fp g dxv dx_gamma rel_scale dx_perp_fac of
        Inl ex \<Rightarrow> (Inl ex, g)
      | Inr (evec_s, evec_u, dxscaled, rel, gam) \<Rightarrow>
          (let g1 = set_active True g in
           case ebind (vec2_of (coordarray (point fp))) (\<lambda>fp_point.
                ebind (py_index (coordnames (point fp)) 0) (\<lambda>var_x.
                ebind (py_index (coordnames (point fp)) 1) (\<lambda>var_y.
                ebind (py_assert (tmax > 0) []) (\<lambda>_. Inr fp_point)))) of
             Inl ex \<Rightarrow> (Inl ex, g1)
           | Inr fp_point \<Rightarrow>
               (case which_loop (set_gamma fp_point evec_s evec_u gam tmax)
                       (branch_body compute Rhs fp_point evec_s evec_u (eps fp / 100)
                          (nat (normord fp)) dxv dxscaled rel max_len max_pts other_pts
                          dx_perp_fac directions)
                       which (ic, ic_dx, dxp, False, []) g1 of
                  (Inl ex, g2) \<Rightarrow> (Inl ex, g2)
                | (Inr (ic1, ic_dx1, dxp1, e_bound1, manifold), g2) \<Rightarrow>
                    (Inr manifold, set_active False g2))))"

subsection \<open>Concrete inputs used by the instances below\<close>

text \<open>The linear saddle \<open>x' = x, y' = -y\<close> at the origin, with its eigen-data.\<close>

definition linear_saddle_eig :: "real list list \<Rightarrow> complex list \<times> complex list list" where
  "linear_saddle_eig Dm = ([1, - 1], [[1, 0], [0, 1]])"

definition origin_pt :: Point where
  "origin_pt = \<lparr>coordnames = [''x'', ''y''], coordarray = [0, 0], pt_normord = 2\<rparr>"

text \<open>A test function that reports the side of zero and whose evaluation breaks down at zero.\<close>

definition faulty_sign :: "real \<Rightarrow> exn + real" where
  "faulty_sign x = (if x = 0 then Inl (RuntimeError ''Integration failed'') else Inr (sgn x))"

text \<open>
  A solver that moves every coordinate of the seed to the nearer of the roots \<open>-1\<close>
  and \<open>1\<close> and reports success, and a domain test that accepts every value.
\<close>

definition two_roots_fsolve :: "real list \<Rightarrow> fl list \<times> int" where
  "two_roots_fsolve x0 = (map (\<lambda>x. Finite (if x < 0 then - 1 else 1)) x0, 1)"

definition any_value :: "string \<Rightarrow> real \<Rightarrow> bool" where
  "any_value xname v = True"

text \<open>
  A grid solver that never converges, and a continuation whose first segment in either
  direction leaves the domain and whose curve has two points one hundredth apart.
\<close>

definition no_root_xinf :: "residual \<Rightarrow> real \<Rightarrow> real \<Rightarrow> fl" where
  "no_root_xinf r x0 other = NonFinite"

definition close_points_cont :: "unit continuation" where
  "close_points_cont =
     \<lparr>newCurve = (\<lambda>is_y init ms. ()), forward = Inr, backward = Inr,
      new_sol_segment = (\<lambda>P. [Vec2 5 5]),
      sol = (\<lambda>P. [Vec2 0 0, Vec2 (1 / 100) 0, Vec2 5 5])\<rparr>"

text \<open>A grid solver that always lands on the value of the other variable.\<close>

definition diagonal_xinf :: "residual \<Rightarrow> real \<Rightarrow> real \<Rightarrow> fl" where
  "diagonal_xinf r x0 other = Finite other"

text \<open>Both exit events are present and active.\<close>

definition both_active :: "gen \<Rightarrow> bool" where
  "both_active g =
     ((case Gamma_out_plus g of None \<Rightarrow> False | Some ev \<Rightarrow> activeFlag ev)
      \<and> (case Gamma_out_minus g of None \<Rightarrow> False | Some ev \<Rightarrow> activeFlag ev))"

text \<open>Both exit events are present and inactive.\<close>

definition both_inactive :: "gen \<Rightarrow> bool" where
  "both_inactive g =
     ((case Gamma_out_plus g of None \<Rightarrow> False | Some ev \<Rightarrow> \<not> activeFlag ev)
      \<and> (case Gamma_out_minus g of None \<Rightarrow> False | Some ev \<Rightarrow> \<not> activeFlag ev))"

text \<open>
  The linear saddle \<open>x' = x, y' = -y\<close> as a classified fixed point, its vector field,
  and an integrator for it: forwards in time a trajectory leaves through the surface on
  the side of the \<open>x\<close> axis it starts on (and through neither when it starts on the
  \<open>y\<close> axis), backwards in time the same with the axes exchanged; away from the
  other axis by more than \<open>0.15\<close> the integration breaks down.
\<close>

definition linear_saddle_fp :: fixedpoint where
  "linear_saddle_fp =
     \<lparr>dimension = 2, fp_coords = [''x'', ''y''], eps = 1 / 10 ^ 12, D = [[1, 0], [0, - 1]],
      normord = 2, evals = [1, - 1], evecs = [[1, 0], [0, 1]], point = origin_pt,
      classification = ''saddle'', stability = ''u'', degenerate = False\<rparr>"

definition linear_saddle_Rhs :: "gen \<Rightarrow> vec2 \<Rightarrow> vec2" where
  "linear_saddle_Rhs g p = Vec2 (vx p) (- vy p)"

definition linear_saddle_compute :: "gen \<Rightarrow> vec2 \<Rightarrow> dircode \<Rightarrow> (bool \<times> bool) option" where
  "linear_saddle_compute g p dc =
     (case dc of
        F \<Rightarrow> if \<bar>vy p\<bar> > 15 / 100 then None else Some (0 < vx p, vx p < 0)
      | B \<Rightarrow> if \<bar>vx p\<bar> > 15 / 100 then None else Some (0 < vy p, vy p < 0))"

definition idle_gen :: gen where
  "idle_gen =
     \<lparr>Gamma_out_plus = Some \<lparr>activeFlag = False, evdir = 0\<rparr>,
      Gamma_out_minus = Some \<lparr>activeFlag = False, evdir = 0\<rparr>,
      Gamma_out_plus_p = Vec2 0 0, Gamma_out_plus_dp = Vec2 0 0,
      Gamma_out_minus_p = Vec2 0 0, Gamma_out_minus_dp = Vec2 0 0,
      tdata = (0, 1)\<rparr>"

text \<open>The generator after the stable branch of this saddle has been set up, active or not.\<close>

definition stable_gen :: "bool \<Rightarrow> gen" where
  "stable_gen b =
     \<lparr>Gamma_out_plus = Some \<lparr>activeFlag = b, evdir = - 1\<rparr>,
      Gamma_out_minus = Some \<lparr>activeFlag = b, evdir = 1\<rparr>,
      Gamma_out_plus_p = Vec2 (1 / 10) 0, Gamma_out_plus_dp = Vec2 0 (- 1),
      Gamma_out_minus_p = Vec2 (- (1 / 10)) 0, Gamma_out_minus_dp = Vec2 0 (- 1),
      tdata = (0, 10)\<rparr>"

section \<open>Properties\<close>

subsection \<open>Basic facts about the helpers\<close>

lemma ebind_Inr_iff: "ebind m f = Inr y \<longleftrightarrow> (\<exists>x. m = Inr x \<and> f x = Inr y)"
  by (cases m) (auto simp: ebind_def)

lemma py_index_Inr_iff: "py_index xs i = Inr x \<longleftrightarrow> i < length xs \<and> x = xs ! i"
  by (auto simp: py_index_def)

lemma ebind_Inl_iff: "ebind m f = Inl e \<longleftrightarrow> m = Inl e \<or> (\<exists>x. m = Inr x \<and> f x = Inl e)"
  by (cases m) (auto simp: ebind_def)

lemma emap_length: "emap f xs = Inr ys \<Longrightarrow> length ys = length xs"
  by (induction xs arbitrary: ys) (auto split: sum.splits)

subsection \<open>Classification of a planar fixed point\<close>

lemma classify_2D_Inr:
  assumes "fixedpoint_2D_classify evs e = Inr (cls, stab, deg)" and "length evs = 2"
  shows "cls = (if Im (evs ! 0) = 0 \<and> Im (evs ! 1) = 0
                then (if sgn (Re (evs ! 0)) = sgn (Re (evs ! 1)) then ''node'' else ''saddle'')
                else ''spiral'')"
    and "stab = (if Re (evs ! 0) < 0 \<and> Re (evs ! 1) < 0 then ''s''
                 else if Re (evs ! 0) = 0 \<and> Re (evs ! 1) = 0 then ''c'' else ''u'')"
    and "deg = (cmod (evs ! 0) < e \<or> cmod (evs ! 1) < e \<or> cmod (evs ! 0 - evs ! 1) < e)"
proof -
  from assms(2) obtain e0 e1 where evs: "evs = [e0, e1]"
    by (cases evs; cases "tl evs") auto
  from assms(1) show "cls = (if Im (evs ! 0) = 0 \<and> Im (evs ! 1) = 0
                then (if sgn (Re (evs ! 0)) = sgn (Re (evs ! 1)) then ''node'' else ''saddle'')
                else ''spiral'')"
    unfolding evs
    by (auto simp: fixedpoint_2D_classify_def ebind_def py_index_def Let_def np_isreal_def np_sign_def)
  from assms(1) show "stab = (if Re (evs ! 0) < 0 \<and> Re (evs ! 1) < 0 then ''s''
                 else if Re (evs ! 0) = 0 \<and> Re (evs ! 1) = 0 then ''c'' else ''u'')"
    unfolding evs
    by (auto simp: fixedpoint_2D_classify_def ebind_def py_index_def Let_def)
  from assms(1) show "deg = (cmod (evs ! 0) < e \<or> cmod (evs ! 1) < e \<or> cmod (evs ! 0 - evs ! 1) < e)"
    unfolding evs
    by (auto simp: fixedpoint_2D_classify_def ebind_def py_index_def Let_def)
qed

lemma fixedpoint_nD_init_Inr:
  assumes "fixedpoint_nD_init classify eig pn gd gv rhs pt coords jacD nord e = Inr fp"
  shows "\<exists>Dm. jacD = Some Dm \<and> D fp = Dm \<and> evals fp = fst (eig Dm) \<and> eps fp = e
           \<and> length (evals fp) = dimension fp
           \<and> classify (evals fp) e = Inr (classification fp, stability fp, degenerate fp)"
  using assms
  by (auto simp: fixedpoint_nD_init_def get_eigen_def Let_def ebind_Inr_iff
           split: option.splits if_splits prod.splits)

text \<open>
  Claim C1. Every fixed point that \<open>fixedpoint_2D_init\<close> constructs has exactly two
  eigenvalues \<open>e0, e1\<close>, those the eigen-solver returns for the Jacobian at the point,
  and its three labels are functions of them and of the tolerance: the classification is
  \<open>node\<close> when both are real with the same sign, \<open>saddle\<close> when both are real with
  different signs (a product below zero in particular), and \<open>spiral\<close> when one of them
  is not real; the stability is \<open>s\<close> when both real parts are negative, \<open>c\<close> when both
  are exactly zero and \<open>u\<close> otherwise; and the degenerate flag holds exactly when the
  magnitude of one eigenvalue, or of their difference, is below the tolerance.
\<close>

theorem fixedpoint_2D_classification:
  assumes "fixedpoint_2D_init eig pn gd gv rhs pt coords jacD nord e = Inr fp"
  shows "\<exists>Dm e0 e1. jacD = Some Dm \<and> fst (eig Dm) = [e0, e1] \<and> evals fp = [e0, e1]
     \<and> classification fp =
         (if Im e0 = 0 \<and> Im e1 = 0
          then (if sgn (Re e0) = sgn (Re e1) then ''node'' else ''saddle'')
          else ''spiral'')
     \<and> (Im e0 = 0 \<and> Im e1 = 0 \<and> Re e0 * Re e1 < 0 \<longrightarrow> classification fp = ''saddle'')
     \<and> stability fp =
         (if Re e0 < 0 \<and> Re e1 < 0 then ''s''
          else if Re e0 = 0 \<and> Re e1 = 0 then ''c'' else ''u'')
     \<and> degenerate fp = (cmod e0 < e \<or> cmod e1 < e \<or> cmod (e0 - e1) < e)"
proof -
  from assms have nD:
    "fixedpoint_nD_init fixedpoint_2D_classify eig pn gd gv rhs pt coords jacD nord e = Inr fp"
    and dim2: "dimension fp = 2"
    by (auto simp: fixedpoint_2D_init_def ebind_Inr_iff split: if_splits)
  from fixedpoint_nD_init_Inr [OF nD] obtain Dm where Dm: "jacD = Some Dm"
    and ev: "evals fp = fst (eig Dm)" and len: "length (evals fp) = dimension fp"
    and cl: "fixedpoint_2D_classify (evals fp) e
               = Inr (classification fp, stability fp, degenerate fp)"
    by blast
  from len dim2 have l2: "length (evals fp) = 2" by simp
  then obtain e0 e1 where evs: "evals fp = [e0, e1]"
    by (cases "evals fp"; cases "tl (evals fp)") auto
  have opp: "sgn (Re e0) \<noteq> sgn (Re e1)" if "Re e0 * Re e1 < 0"
    using that by (auto simp: sgn_if mult_less_0_iff)
  note c = classify_2D_Inr [OF cl l2, unfolded evs, simplified]
  have 1: "fst (eig Dm) = [e0, e1]" using ev evs by simp
  have 2: "classification fp =
         (if Im e0 = 0 \<and> Im e1 = 0
          then (if sgn (Re e0) = sgn (Re e1) then ''node'' else ''saddle'')
          else ''spiral'')"
    using c(1) by simp
  have 3: "Im e0 = 0 \<and> Im e1 = 0 \<and> Re e0 * Re e1 < 0 \<longrightarrow> classification fp = ''saddle''"
    using 2 opp by simp
  have 4: "stability fp =
         (if Re e0 < 0 \<and> Re e1 < 0 then ''s''
          else if Re e0 = 0 \<and> Re e1 = 0 then ''c'' else ''u'')"
    using c(2) by simp
  have 5: "degenerate fp = (cmod e0 < e \<or> cmod e1 < e \<or> cmod (e0 - e1) < e)"
    using c(3) by simp
  from Dm 1 evs 2 3 4 5 show ?thesis by blast
qed

lemma linear_saddle_constructed:
  "fixedpoint_2D_init linear_saddle_eig 2 2 [''x'', ''y''] [0, 0] origin_pt None
      (Some [[1, 0], [0, - 1]]) 2 (1 / 10 ^ 12)
   = Inr \<lparr>dimension = 2, fp_coords = [''x'', ''y''], eps = 1 / 10 ^ 12, D = [[1, 0], [0, - 1]],
           normord = 2, evals = [1, - 1], evecs = [[1, 0], [0, 1]], point = origin_pt,
           classification = ''saddle'', stability = ''u'', degenerate = False\<rparr>"
  by (simp add: fixedpoint_2D_init_def fixedpoint_nD_init_def get_eigen_def linear_saddle_eig_def
      origin_pt_def ebind_def py_assert_def py_index_def pnorm_def index_of_def
      fixedpoint_2D_classify_def np_isreal_def np_sign_def Let_def upt_rec)

theorem fixedpoint_2D_classification_witness:
  "\<exists>fp. fixedpoint_2D_init linear_saddle_eig 2 2 [''x'', ''y''] [0, 0] origin_pt None
           (Some [[1, 0], [0, - 1]]) 2 (1 / 10 ^ 12) = Inr fp
     \<and> evals fp = [1, - 1] \<and> classification fp = ''saddle'' \<and> stability fp = ''u''
     \<and> \<not> degenerate fp"
  using fixedpoint_2D_classification [OF linear_saddle_constructed]
  by (subst linear_saddle_constructed) (simp add: linear_saddle_eig_def)

subsection \<open>Bisection\<close>

text \<open>
  Claim C5. When the test function returns values at both end points whose product is
  not negative, \<open>bisection\<close> fails with the assertion error of its bracket check, and
  the run has entered the loop body zero times and evaluated the function at no midpoint.
\<close>

theorem bisection_not_bracketed:
  assumes "func a = Inr eva" and "func b = Inr evb" and "eva * evb \<ge> 0"
  shows "bisection func nrm a b xtol maxiter =
           (Inl (AssertionError ''Must start with interval with func(a) * func(b) <0''), 0, [])"
  using assms by (simp add: bisection_def)

theorem bisection_not_bracketed_witness:
  "faulty_sign 1 = Inr 1 \<and> faulty_sign 2 = Inr 1 \<and> (1::real) * 1 \<ge> 0
   \<and> bisection faulty_sign abs 1 2 (1 / 10) 400 =
       (Inl (AssertionError ''Must start with interval with func(a) * func(b) <0''), 0, [])"
proof -
  have a: "faulty_sign 1 = Inr 1" and b: "faulty_sign 2 = Inr 1" and c: "(1::real) * 1 \<ge> 0"
    by (simp_all add: faulty_sign_def)
  from bisection_not_bracketed [OF a b c, of abs "1 / 10" 400] a b c show ?thesis by simp
qed

lemma bisection_loop_fault:
  assumes "bisection_loop func nrm xtol maxiter i a b eva = (res, k, mids)"
    and "p \<in> set mids" and "func p = Inl (RuntimeError msg)"
  shows "res = Inr p \<and> last mids = p"
  using assms
proof (induction func nrm xtol maxiter i a b eva arbitrary: res k mids rule: bisection_loop.induct)
  case (1 func nrm xtol maxiter i a b eva)
  let ?p = "a + (b - a) /\<^sub>R 2"
  note eq = "1.prems"(1) [unfolded bisection_loop.simps [of func nrm xtol maxiter i a b eva]]
  show ?case
  proof (cases "i \<le> maxiter \<and> \<not> nrm ((b - a) /\<^sub>R 2) < xtol")
    case False
    with eq "1.prems"(2) show ?thesis by (auto simp: Let_def split: if_splits)
  next
    case True
    show ?thesis
    proof (cases "func ?p")
      case (Inl e)
      with True eq "1.prems"(2,3) show ?thesis
        by (auto simp: Let_def split: if_splits)
    next
      case (Inr ev)
      show ?thesis
      proof (cases "ev = 0")
        case True
        with \<open>i \<le> maxiter \<and> _\<close> Inr eq "1.prems"(2,3) show ?thesis
          by (auto simp: Let_def split: if_splits)
      next
        case False
        have pne: "p \<noteq> ?p" using Inr "1.prems"(3) by auto
        show ?thesis
        proof (cases "ev * eva > 0")
          case gt: True
          obtain r' k' ps' where
            rec: "bisection_loop func nrm xtol maxiter (i + 1) ?p b ev = (r', k', ps')"
            by (cases "bisection_loop func nrm xtol maxiter (i + 1) ?p b ev") auto
          with True Inr False gt eq have "res = r'" "mids = ?p # ps'"
            by (auto simp: Let_def)
          moreover from this pne "1.prems"(2) have "p \<in> set ps'" by auto
          moreover have "r' = Inr p \<and> last ps' = p"
            using "1.IH"(1) [OF _ refl refl _ Inr False gt rec \<open>p \<in> set ps'\<close> "1.prems"(3)] True
            by simp
          ultimately show ?thesis by auto
        next
          case ngt: False
          obtain r' k' ps' where
            rec: "bisection_loop func nrm xtol maxiter (i + 1) a ?p eva = (r', k', ps')"
            by (cases "bisection_loop func nrm xtol maxiter (i + 1) a ?p eva") auto
          with True Inr False ngt eq have "res = r'" "mids = ?p # ps'"
            by (auto simp: Let_def)
          moreover from this pne "1.prems"(2) have "p \<in> set ps'" by auto
          moreover have "r' = Inr p \<and> last ps' = p"
            using "1.IH"(2) [OF _ refl refl _ Inr False ngt rec \<open>p \<in> set ps'\<close> "1.prems"(3)] True
            by simp
          ultimately show ?thesis by auto
        qed
      qed
    qed
  qed
qed

text \<open>
  Claim C6. On a valid bracket (the values at the end points have a negative product),
  if the test function raises a RuntimeError at a midpoint that the run evaluates, then
  \<open>bisection\<close> returns that midpoint as its result, and it is the last midpoint
  evaluated: the fault is not propagated.
\<close>

theorem bisection_fault_returns_midpoint:
  assumes "func a = Inr eva" and "func b = Inr evb" and "eva * evb < 0"
    and "bisection func nrm a b xtol maxiter = (res, k, mids)"
    and "p \<in> set mids" and "func p = Inl (RuntimeError msg)"
  shows "res = Inr p \<and> last mids = p"
proof -
  from assms(1-4) have "bisection_loop func nrm xtol maxiter 1 a b eva = (res, k, mids)"
    by (simp add: bisection_def)
  from bisection_loop_fault [OF this assms(5,6)] show ?thesis .
qed

lemma faulty_sign_run:
  "bisection faulty_sign abs (- 1) 3 (1 / 10) 400 = (Inr 0, 2, [1, 0])"
  by (simp add: bisection_def bisection_loop.simps faulty_sign_def)

theorem bisection_fault_returns_midpoint_witness:
  "faulty_sign (- 1) = Inr (- 1) \<and> faulty_sign 3 = Inr 1 \<and> (- 1 :: real) * 1 < 0
   \<and> bisection faulty_sign abs (- 1) 3 (1 / 10) 400 = (Inr 0, 2, [1, 0])
   \<and> (0::real) \<in> set [1, 0] \<and> faulty_sign 0 = Inl (RuntimeError ''Integration failed'')
   \<and> (Inr 0 :: exn + real) = Inr 0 \<and> last [1, 0 :: real] = 0"
proof -
  have a: "faulty_sign (- 1) = Inr (- 1)" and b: "faulty_sign 3 = Inr 1"
    and c: "(- 1 :: real) * 1 < 0" and m: "(0::real) \<in> set [1, 0]"
    and f: "faulty_sign 0 = Inl (RuntimeError ''Integration failed'')"
    by (simp_all add: faulty_sign_def)
  from bisection_fault_returns_midpoint [OF a b c faulty_sign_run m f] a b c m f faulty_sign_run
  show ?thesis by simp
qed

text \<open>
  Claim C8. For the identity function on the bracket \<open>[-1, 1]\<close> and a tolerance in
  \<open>(0, 1)\<close>, with an iteration budget of at least one (the default is 400),
  \<open>bisection\<close> returns 0, whose distance to the root 0 is below the tolerance, after
  entering the loop body once; and one iteration is at most
  \<open>ceil(log2(2 / tol))\<close>.
\<close>

theorem bisection_identity:
  assumes "0 < tol" and "tol < 1" and "1 \<le> maxiter"
  shows "bisection (\<lambda>x::real. Inr x) abs (- 1) 1 tol maxiter = (Inr 0, 1, [0])
         \<and> \<bar>0 - 0 :: real\<bar> < tol \<and> int 1 \<le> \<lceil>log 2 (2 / tol)\<rceil>"
proof -
  have "bisection (\<lambda>x::real. Inr x) abs (- 1) 1 tol maxiter = (Inr 0, 1, [0])"
    using assms by (simp add: bisection_def bisection_loop.simps [of _ _ _ _ 1])
  moreover have "1 < log 2 (2 / tol)"
  proof -
    have "2 < 2 / tol" using assms by (simp add: field_simps)
    then have "log 2 2 < log 2 (2 / tol)" using assms by (subst log_less_cancel_iff) auto
    then show ?thesis by simp
  qed
  then have "int 1 \<le> \<lceil>log 2 (2 / tol)\<rceil>" by linarith
  ultimately show ?thesis using assms by simp
qed

theorem bisection_identity_witness:
  "(0::real) < 1 / 2 \<and> (1 / 2 :: real) < 1 \<and> (1::int) \<le> 400
   \<and> bisection (\<lambda>x::real. Inr x) abs (- 1) 1 (1 / 2) 400 = (Inr 0, 1, [0])
   \<and> int 1 \<le> \<lceil>log 2 (2 / (1 / 2))\<rceil>"
  using bisection_identity [of "1 / 2" 400] by simp

subsection \<open>The anisotropic step helper\<close>

lemma dx_scaled_2D_init_unit: "dx_scaled_2D_init d (1, 1) = Inr \<lparr>dx = d, x_scale = 1, y_scale = 1\<rparr>"
  by (simp add: dx_scaled_2D_init_def)

lemma dx_scaled_2D_call_unit:
  "dx_scaled_2D_call \<lparr>dx = d, x_scale = 1, y_scale = 1\<rparr> dir = d *\<^sub>R dir"
  unfolding dx_scaled_2D_call_def Let_def by simp

lemma dx_scaled_2D_rmul_unit:
  "dx_scaled_2D_rmul \<lparr>dx = d, x_scale = 1, y_scale = 1\<rparr> dir = d *\<^sub>R dir"
  unfolding dx_scaled_2D_rmul_def Let_def by simp

text \<open>
  Claim C10. Constructing \<open>dx_scaled_2D\<close> with step \<open>d\<close> and scale \<open>(1, 1)\<close>
  succeeds, and applying the instance to any direction vector, by call or by
  multiplication from either side, returns the vector scaled by \<open>d\<close>, whatever its angle.
\<close>

theorem dx_scaled_2D_unit_scale:
  "\<exists>s. dx_scaled_2D_init d (1, 1) = Inr s
       \<and> dx_scaled_2D_call s dir = d *\<^sub>R dir
       \<and> dx_scaled_2D_rmul s dir = d *\<^sub>R dir"
  using dx_scaled_2D_init_unit dx_scaled_2D_call_unit dx_scaled_2D_rmul_unit by blast

subsection \<open>The grid of find\_fixedpoints\<close>

lemma reduce_n_Inr:
  "reduce_n n Dn ms = Inr n' \<Longrightarrow>
     n' \<le> n \<and> real_of_int (n' ^ Dn) \<le> ms
     \<and> (\<forall>m. n' < m \<and> m \<le> n \<longrightarrow> ms < real_of_int (m ^ Dn)) \<and> (n' < n \<longrightarrow> 3 \<le> n')"
proof (induction n Dn ms rule: reduce_n.induct)
  case (1 n Dn ms)
  show ?case
  proof (cases "real_of_int (n ^ Dn) > ms")
    case False
    with "1.prems" show ?thesis by (simp add: reduce_n.simps [of n])
  next
    case True
    with "1.prems" have ge: "\<not> n - 1 < 3" and rec: "reduce_n (n - 1) Dn ms = Inr n'"
      by (auto simp: reduce_n.simps [of n] split: if_splits)
    from "1.IH" [OF True ge rec] have IH: "n' \<le> n - 1" "real_of_int (n' ^ Dn) \<le> ms"
      "\<forall>m. n' < m \<and> m \<le> n - 1 \<longrightarrow> ms < real_of_int (m ^ Dn)" "n' < n - 1 \<longrightarrow> 3 \<le> n'"
      by auto
    have "ms < real_of_int (m ^ Dn)" if "n' < m" "m \<le> n" for m
    proof (cases "m = n")
      case True with \<open>real_of_int (n ^ Dn) > ms\<close> show ?thesis by simp
    next
      case False with that IH(3) show ?thesis by auto
    qed
    with IH ge show ?thesis by auto
  qed
qed

lemma reduce_n_Inl:
  "reduce_n n Dn ms = Inl e \<Longrightarrow>
     e = StringException ''maxsearch too small'' \<and> ms < real_of_int (n ^ Dn)
     \<and> (\<forall>m. 3 \<le> m \<and> m \<le> n \<longrightarrow> ms < real_of_int (m ^ Dn))"
proof (induction n Dn ms rule: reduce_n.induct)
  case (1 n Dn ms)
  from "1.prems" have gt: "real_of_int (n ^ Dn) > ms"
    by (auto simp: reduce_n.simps [of n] split: if_splits)
  show ?case
  proof (cases "n - 1 < 3")
    case True
    have "ms < real_of_int (m ^ Dn)" if "3 \<le> m" "m \<le> n" for m
    proof -
      from that True have "m = n" by simp
      with gt show ?thesis by simp
    qed
    with "1.prems" gt True show ?thesis by (auto simp: reduce_n.simps [of n])
  next
    case False
    with "1.prems" gt have rec: "reduce_n (n - 1) Dn ms = Inl e"
      by (auto simp: reduce_n.simps [of n])
    from "1.IH" [OF gt False rec] have IH: "e = StringException ''maxsearch too small''"
      "\<forall>m. 3 \<le> m \<and> m \<le> n - 1 \<longrightarrow> ms < real_of_int (m ^ Dn)" by auto
    have "ms < real_of_int (m ^ Dn)" if "3 \<le> m" "m \<le> n" for m
    proof (cases "m = n")
      case True with gt show ?thesis by simp
    next
      case False with that IH(2) show ?thesis by auto
    qed
    with IH(1) gt show ?thesis by auto
  qed
qed

lemma reduce_n_small: "real_of_int (n ^ Dn) \<le> ms \<Longrightarrow> reduce_n n Dn ms = Inr n"
  by (simp add: reduce_n.simps [of n])

lemma reduce_n_fails_iff:
  assumes "3 \<le> n"
  shows "(\<exists>e. reduce_n n Dn ms = Inl e) \<longleftrightarrow> ms < 3 ^ Dn"
proof
  assume "\<exists>e. reduce_n n Dn ms = Inl e"
  then obtain e where "reduce_n n Dn ms = Inl e" ..
  from reduce_n_Inl [OF this] assms have "ms < real_of_int (3 ^ Dn)" by blast
  then show "ms < 3 ^ Dn" by simp
next
  assume lt: "ms < 3 ^ Dn"
  show "\<exists>e. reduce_n n Dn ms = Inl e"
  proof (cases "reduce_n n Dn ms")
    case (Inl e) then show ?thesis by blast
  next
    case (Inr n')
    from reduce_n_Inr [OF Inr] assms have n': "3 \<le> n'" and le: "real_of_int (n' ^ Dn) \<le> ms"
      by auto
    from n' have "(3::int) ^ Dn \<le> n' ^ Dn" by (intro power_mono) auto
    then have "(3::real) ^ Dn \<le> real_of_int (n' ^ Dn)"
      by (metis of_int_le_iff of_int_numeral of_int_power)
    with le lt show ?thesis by simp
  qed
qed

lemma length_inc [simp]: "length (inc maxval cs) = length cs"
  by (induction cs) auto

lemma grid_seeds_length:
  "grid_seeds x0_coords maxval k d_posns = Inr seeds \<Longrightarrow>
     length seeds = k \<and> (\<forall>x0 \<in> set seeds. length x0 = min (length x0_coords) (length d_posns))"
proof (induction k arbitrary: d_posns seeds)
  case 0
  then show ?case by simp
next
  case (Suc k)
  from Suc.prems obtain x0 rest where
    x0: "emap (\<lambda>(row, c). py_index row (nat c)) (zip x0_coords d_posns) = Inr x0"
    and rest: "grid_seeds x0_coords maxval k (inc maxval d_posns) = Inr rest"
    and seeds: "seeds = x0 # rest"
    by (auto simp: ebind_Inr_iff)
  from emap_length [OF x0] have "length x0 = min (length x0_coords) (length d_posns)" by simp
  with Suc.IH [OF rest] seeds show ?case by auto
qed

lemma count_ranges_Inr:
  "count_ranges sd = Inr (Dn, fixed_vars) \<Longrightarrow> Dn = length (filter (\<lambda>(k, d). is_Range d) sd)"
proof (induction sd arbitrary: Dn fixed_vars rule: count_ranges.induct)
  case 1
  then show ?case by simp
next
  case (2 xname lo hi rest)
  then show ?case by (auto simp: ebind_Inr_iff split: if_splits)
next
  case (3 xname v rest)
  then show ?case by (auto simp: ebind_Inr_iff)
qed

lemma length_range_items: "length (range_items sd) = length (filter (\<lambda>(k, d). is_Range d) sd)"
  by (induction sd rule: range_items.induct) auto

lemma length_filter_insort_key:
  "length (filter P (insort_key f x xs)) = length (filter P (x # xs))"
  by (induction xs) auto

lemma length_filter_sort_key: "length (filter P (sort_key f xs)) = length (filter P xs)"
  by (induction xs) (simp_all add: length_filter_insort_key)

lemma count_ranges_sorted_items:
  assumes "count_ranges sd = Inr (Dn, fixed_vars)"
  shows "length (range_items (sort_key fst sd)) = Dn"
  using count_ranges_Inr [OF assms] by (simp add: length_range_items length_filter_sort_key)

lemma find_fixedpoints_seeds_Inr:
  assumes "find_fixedpoints_seeds xd vars sub n ms = Inr (names, fixed_vars, seeds)"
  shows "\<exists>n'. reduce_n n (length names) ms = Inr n' \<and> 0 \<le> n'
           \<and> length seeds = nat (n' ^ length names)
           \<and> (\<forall>x0 \<in> set seeds. length x0 = length names)"
proof -
  from assms obtain sd Dn n' where
    cr: "count_ranges sd = Inr (Dn, fixed_vars)" and rn: "reduce_n n Dn ms = Inr n'"
    and n': "\<not> n' < 0"
    and names: "names = map fst (range_items (sort_key fst sd))"
    and gs: "grid_seeds (map (\<lambda>(xname, lo, hi). linspace lo hi n') (range_items (sort_key fst sd)))
               (n' - 1) (nat (n' ^ Dn)) (replicate Dn 0) = Inr seeds"
    by (auto simp: find_fixedpoints_seeds_def ebind_Inr_iff Let_def split: if_splits)
  from count_ranges_sorted_items [OF cr] names have Dn: "Dn = length names" by simp
  from grid_seeds_length [OF gs] Dn names
  have "length seeds = nat (n' ^ Dn)" "\<forall>x0 \<in> set seeds. length x0 = length names"
    by auto
  with rn n' Dn show ?thesis by auto
qed

lemma find_fixedpoints_seeds_free_dims:
  assumes "find_fixedpoints_seeds xd vars sub n ms = Inr (names, fixed_vars, seeds)"
  shows "length names = free_dims xd vars sub"
proof -
  from assms obtain sd Dn where
    sd: "(case sub of
            None \<Rightarrow> Inr (filter (\<lambda>(k, d). k \<in> set vars) xd)
          | Some sd \<Rightarrow> ebind (py_assert (set (map fst sd) = set vars) []) (\<lambda>_. Inr sd)) = Inr sd"
    and cr: "count_ranges sd = Inr (Dn, fixed_vars)"
    and names: "names = map fst (range_items (sort_key fst sd))"
    by (auto simp: find_fixedpoints_seeds_def ebind_Inr_iff Let_def split: if_splits)
  from sd have "sd = subdomain_used xd vars sub"
    by (cases sub) (auto simp: subdomain_used_def ebind_Inr_iff)
  with names show ?thesis
    by (simp add: free_dims_def length_range_items length_filter_sort_key)
qed

text \<open>
  Claim C7, as amended. Let \<open>D\<close> be the number of entries of the sub-domain that are
  ranges. Whenever the first part of \<open>find_fixedpoints\<close> completes, \<open>D\<close> variables
  are free, the grid has a resolution \<open>n'\<close> between 0 and the requested \<open>n\<close>, the
  number of solver seeds is \<open>n' ^ D\<close> and is at most \<open>maxsearch\<close>, and every
  resolution above \<open>n'\<close> up to \<open>n\<close> would exceed \<open>maxsearch\<close>, so \<open>n'\<close> is the
  largest admissible one. A requested resolution of at most 3 is never lowered, and one
  of at least 3 is never lowered below 3.

  For a requested resolution of at least 3, if \<open>3 ^ D\<close> exceeds \<open>maxsearch\<close> the call
  fails. For a requested resolution of at most 3, if \<open>n ^ D\<close> exceeds \<open>maxsearch\<close> the
  call fails. Either failure arises in the first part, before the search loop, so it
  is the same for every solver and no seed is handed to one.
\<close>

theorem find_fixedpoints_grid_cap:
  "(find_fixedpoints_seeds xd vars sub n ms = Inr (names, fixed_vars, seeds) \<longrightarrow>
      length names = free_dims xd vars sub
      \<and> (\<exists>n'. 0 \<le> n' \<and> n' \<le> n \<and> int (length seeds) = n' ^ free_dims xd vars sub
            \<and> real (length seeds) \<le> ms
            \<and> (\<forall>m. n' < m \<and> m \<le> n \<longrightarrow> ms < real_of_int (m ^ free_dims xd vars sub))
            \<and> (n \<le> 3 \<longrightarrow> n' = n)
            \<and> (3 \<le> n \<longrightarrow> 3 \<le> n' \<and> 3 ^ free_dims xd vars sub \<le> ms)))
   \<and> (3 \<le> n \<and> ms < 3 ^ free_dims xd vars sub \<longrightarrow>
        (\<exists>e. find_fixedpoints_seeds xd vars sub n ms = Inl e
           \<and> (\<forall>fsolve contains eps.
                 find_fixedpoints fsolve contains xd vars sub n ms eps = Inl e)))
   \<and> (n \<le> 3 \<and> ms < real_of_int (n ^ free_dims xd vars sub) \<longrightarrow>
        (\<exists>e. find_fixedpoints_seeds xd vars sub n ms = Inl e
           \<and> (\<forall>fsolve contains eps.
                 find_fixedpoints fsolve contains xd vars sub n ms eps = Inl e)))"
proof -
  have cap: "\<exists>n'. 0 \<le> n' \<and> n' \<le> n \<and> int (length seeds) = n' ^ length names
           \<and> real (length seeds) \<le> ms
           \<and> (\<forall>m. n' < m \<and> m \<le> n \<longrightarrow> ms < real_of_int (m ^ length names))
           \<and> (n \<le> 3 \<longrightarrow> n' = n)
           \<and> (3 \<le> n \<longrightarrow> 3 \<le> n' \<and> 3 ^ length names \<le> ms)"
    if run: "find_fixedpoints_seeds xd vars sub n ms = Inr (names, fixed_vars, seeds)"
    for names fixed_vars seeds
  proof -
    from find_fixedpoints_seeds_Inr [OF run] obtain n' where
      rn: "reduce_n n (length names) ms = Inr n'" and n': "0 \<le> n'"
      and len: "length seeds = nat (n' ^ length names)"
      by blast
    note r = reduce_n_Inr [OF rn]
    from n' have nn: "0 \<le> n' ^ length names" by simp
    with len have il: "int (length seeds) = n' ^ length names" by simp
    then have "real (length seeds) = real_of_int (n' ^ length names)"
      by (metis of_int_of_nat_eq)
    with r have le: "real (length seeds) \<le> ms" by simp
    have three: "3 \<le> n' \<and> 3 ^ length names \<le> ms" if "3 \<le> n"
    proof -
      from r that have 3: "3 \<le> n'" by auto
      then have "(3::int) ^ length names \<le> n' ^ length names" by (intro power_mono) auto
      then have "(3::real) ^ length names \<le> real_of_int (n' ^ length names)"
        by (metis of_int_le_iff of_int_numeral of_int_power)
      with r 3 show ?thesis by simp
    qed
    have same: "n' = n" if "n \<le> 3" using r that by auto
    from n' r il le three same show ?thesis by blast
  qed
  have first: "length names = free_dims xd vars sub
      \<and> (\<exists>n'. 0 \<le> n' \<and> n' \<le> n \<and> int (length seeds) = n' ^ free_dims xd vars sub
            \<and> real (length seeds) \<le> ms
            \<and> (\<forall>m. n' < m \<and> m \<le> n \<longrightarrow> ms < real_of_int (m ^ free_dims xd vars sub))
            \<and> (n \<le> 3 \<longrightarrow> n' = n)
            \<and> (3 \<le> n \<longrightarrow> 3 \<le> n' \<and> 3 ^ free_dims xd vars sub \<le> ms))"
    if run: "find_fixedpoints_seeds xd vars sub n ms = Inr (names, fixed_vars, seeds)"
    using cap [OF run] find_fixedpoints_seeds_free_dims [OF run] by simp
  have fails: "\<exists>e. find_fixedpoints_seeds xd vars sub n ms = Inl e
           \<and> (\<forall>fsolve contains eps.
                 find_fixedpoints fsolve contains xd vars sub n ms eps = Inl e)"
    if no: "\<And>names fixed_vars seeds.
              find_fixedpoints_seeds xd vars sub n ms \<noteq> Inr (names, fixed_vars, seeds)"
  proof (cases "find_fixedpoints_seeds xd vars sub n ms")
    case (Inl e)
    then have "find_fixedpoints fsolve contains xd vars sub n ms eps = Inl e"
      for fsolve contains eps
      by (simp add: find_fixedpoints_def ebind_def)
    with Inl show ?thesis by blast
  next
    case (Inr r)
    obtain nms fv sds where "r = (nms, fv, sds)" by (cases r)
    with Inr no show ?thesis by simp
  qed
  have second: "\<exists>e. find_fixedpoints_seeds xd vars sub n ms = Inl e
           \<and> (\<forall>fsolve contains eps.
                 find_fixedpoints fsolve contains xd vars sub n ms eps = Inl e)"
    if n: "3 \<le> n" and ms: "ms < 3 ^ free_dims xd vars sub"
  proof (rule fails)
    fix names fixed_vars seeds
    show "find_fixedpoints_seeds xd vars sub n ms \<noteq> Inr (names, fixed_vars, seeds)"
    proof
      assume run: "find_fixedpoints_seeds xd vars sub n ms = Inr (names, fixed_vars, seeds)"
      from cap [OF run] n have "3 ^ length names \<le> ms" by blast
      with find_fixedpoints_seeds_free_dims [OF run] ms show False by simp
    qed
  qed
  have third: "\<exists>e. find_fixedpoints_seeds xd vars sub n ms = Inl e
           \<and> (\<forall>fsolve contains eps.
                 find_fixedpoints fsolve contains xd vars sub n ms eps = Inl e)"
    if n: "n \<le> 3" and ms: "ms < real_of_int (n ^ free_dims xd vars sub)"
  proof (rule fails)
    fix names fixed_vars seeds
    show "find_fixedpoints_seeds xd vars sub n ms \<noteq> Inr (names, fixed_vars, seeds)"
    proof
      assume run: "find_fixedpoints_seeds xd vars sub n ms = Inr (names, fixed_vars, seeds)"
      from cap [OF run] n have il: "int (length seeds) = n ^ length names"
        and le: "real (length seeds) \<le> ms" by auto
      from il have "real (length seeds) = real_of_int (n ^ length names)"
        by (metis of_int_of_nat_eq)
      with le find_fixedpoints_seeds_free_dims [OF run] ms show False by simp
    qed
  qed
  from first second third show ?thesis by blast
qed

lemma pnorm_singleton: "0 < p \<Longrightarrow> pnorm p [x] = \<bar>x\<bar>"
  by (simp add: pnorm_def real_root_power_cancel)

lemma small_grid_seeds:
  "find_fixedpoints_seeds [(''x'', Range (Finite (- 1)) (Finite 1))] [''x''] None 2 2
     = Inr ([''x''], [], [[- 1], [1]])"
  by (simp add: find_fixedpoints_seeds_def ebind_def reduce_n.simps linspace_def py_index_def
        Let_def numeral_2_eq_2)

theorem find_fixedpoints_grid_cap_witness:
  "find_fixedpoints_seeds [(''x'', Range (Finite (- 1)) (Finite 1))] [''x''] None 5 3
     = Inr ([''x''], [], [[- 1], [0], [1]])
   \<and> free_dims [(''x'', Range (Finite (- 1)) (Finite 1))] [''x''] None = 1
   \<and> (\<exists>n'. 0 \<le> n' \<and> n' \<le> 5 \<and> int (length [[- 1], [0], [1 :: real]]) = n' ^ 1
           \<and> real (length [[- 1], [0], [1 :: real]]) \<le> 3
           \<and> (\<forall>m. n' < m \<and> m \<le> 5 \<longrightarrow> 3 < real_of_int (m ^ 1))
           \<and> ((5::int) \<le> 3 \<longrightarrow> n' = 5)
           \<and> ((3::int) \<le> 5 \<longrightarrow> 3 \<le> n' \<and> 3 ^ 1 \<le> (3::real)))
   \<and> (3::int) \<le> 5 \<and> (2::real) < 3 ^ 1
   \<and> (\<exists>e. find_fixedpoints_seeds [(''x'', Range (Finite (- 1)) (Finite 1))] [''x''] None 5 2
             = Inl e
         \<and> find_fixedpoints two_roots_fsolve any_value
             [(''x'', Range (Finite (- 1)) (Finite 1))] [''x''] None 5 2 (1 / 10 ^ 8) = Inl e)
   \<and> (2::int) \<le> 3 \<and> (1::real) < real_of_int (2 ^ 1)
   \<and> (\<exists>e. find_fixedpoints_seeds [(''x'', Range (Finite (- 1)) (Finite 1))] [''x''] None 2 1
             = Inl e
         \<and> find_fixedpoints two_roots_fsolve any_value
             [(''x'', Range (Finite (- 1)) (Finite 1))] [''x''] None 2 1 (1 / 10 ^ 8) = Inl e)"
proof -
  have run: "find_fixedpoints_seeds [(''x'', Range (Finite (- 1)) (Finite 1))] [''x''] None 5 3
     = Inr ([''x''], [], [[- 1], [0], [1]])"
    by (simp add: find_fixedpoints_seeds_def ebind_def reduce_n.simps linspace_def py_index_def
          Let_def numeral_3_eq_3)
  have fd: "free_dims [(''x'', Range (Finite (- 1)) (Finite 1))] [''x''] None = 1"
    by (simp add: free_dims_def subdomain_used_def)
  from find_fixedpoints_grid_cap [of "[(''x'', Range (Finite (- 1)) (Finite 1))]" "[''x'']" None 5 3
          "[''x'']" "[]" "[[- 1], [0], [1]]"]
       find_fixedpoints_grid_cap [of "[(''x'', Range (Finite (- 1)) (Finite 1))]" "[''x'']" None 5 2]
       find_fixedpoints_grid_cap [of "[(''x'', Range (Finite (- 1)) (Finite 1))]" "[''x'']" None 2 1]
       run fd
  show ?thesis by simp blast
qed

text \<open>
  The claim as stated fails for a requested resolution below 3: with one free variable,
  \<open>n = 2\<close> and \<open>maxsearch = 2\<close>, \<open>3 ^ D = 3\<close> exceeds \<open>maxsearch\<close>, and yet the
  call does not fail: it visits the two seeds and returns the two roots found.
\<close>

theorem find_fixedpoints_small_grid_counterexample:
  "(2::real) < 3 ^ 1
   \<and> find_fixedpoints two_roots_fsolve any_value [(''x'', Range (Finite (- 1)) (Finite 1))]
       [''x''] None 2 2 (1 / 10 ^ 8) = Inr [[(''x'', - 1)], [(''x'', 1)]]"
  by (simp add: find_fixedpoints_def small_grid_seeds ebind_def two_roots_fsolve_def
        any_value_def py_index_def vec_sub_def pnorm_singleton)

subsection \<open>Deduplication in find\_fixedpoints\<close>

lemma vec_sub_append:
  "length a = length b \<Longrightarrow> vec_sub (a @ c) (b @ c) = vec_sub a b @ map (\<lambda>x. 0) c"
  by (simp add: vec_sub_def zip_same_conv_map)

lemma pnorm_append_zeros:
  "0 < p \<Longrightarrow> pnorm p (v @ map (\<lambda>x. 0) c) = pnorm p v"
  by (simp add: pnorm_def o_def zero_power)

lemma pnorm_vec_sub_commute: "pnorm p (vec_sub a b) = pnorm p (vec_sub b a)"
proof -
  have "map (\<lambda>x. \<bar>x\<bar> ^ p) (vec_sub a b) = map (\<lambda>x. \<bar>x\<bar> ^ p) (vec_sub b a)"
    unfolding vec_sub_def
    by (subst zip_commute) (simp add: abs_minus_commute split_def o_def)
  then show ?thesis by (simp add: pnorm_def)
qed

lemma returned_point_distance:
  assumes "length a = length names" and "length b = length names"
  shows "pnorm 2 (vec_sub (map snd (zip names a @ fixed_vars)) (map snd (zip names b @ fixed_vars)))
         = pnorm 2 (vec_sub a b)"
proof -
  have "map snd (zip names a @ fixed_vars) = a @ map snd fixed_vars"
    and "map snd (zip names b @ fixed_vars) = b @ map snd fixed_vars"
    using assms by simp_all
  moreover have "vec_sub (a @ map snd fixed_vars) (b @ map snd fixed_vars)
                   = vec_sub a b @ map (\<lambda>x. 0) (map snd fixed_vars)"
    using assms by (intro vec_sub_append) simp
  ultimately show ?thesis
    using pnorm_append_zeros [of 2 "vec_sub a b" "map snd fixed_vars"] by simp
qed

lemma search_loop_separated:
  assumes "search_loop fsolve contains names fixed_vars e seeds fps fpl = Inr pts"
    and "\<forall>x0. length (fst (fsolve x0)) = length x0"
    and "\<forall>x0 \<in> set seeds. length x0 = length names"
    and "fpl = map (\<lambda>xv. zip names xv @ fixed_vars) fps"
    and "sorted_wrt (\<lambda>a b. e \<le> pnorm 2 (vec_sub a b)) fps"
    and "\<forall>xv \<in> set fps. length xv = length names"
  shows "\<exists>fps'. pts = map (\<lambda>xv. zip names xv @ fixed_vars) fps'
           \<and> sorted_wrt (\<lambda>a b. e \<le> pnorm 2 (vec_sub a b)) fps'
           \<and> (\<forall>xv \<in> set fps'. length xv = length names)"
  using assms
proof (induction seeds arbitrary: fps fpl)
  case Nil
  then show ?case by auto
next
  case (Cons x0 seeds)
  let ?xinf = "fst (fsolve x0)"
  let ?xv = "map fl_val ?xinf"
  from Cons.prems(2,3) have lenxv: "length ?xv = length names" by simp
  let ?accept = "list_all isfinite ?xinf
      \<and> (length fps = 0 \<or> \<not> list_ex (\<lambda>fp. pnorm 2 (vec_sub fp ?xv) < e) fps)
      \<and> bounds_ok contains names ?xv 0 (snd (fsolve x0) = 1) = Inr True"
  show ?case
  proof (cases ?accept)
    case True
    with Cons.prems(1) have rec: "search_loop fsolve contains names fixed_vars e seeds
        (fps @ [?xv]) (fpl @ [zip names ?xv @ fixed_vars]) = Inr pts"
      by (auto simp: Let_def ebind_def)
    from True have far: "\<forall>fp \<in> set fps. e \<le> pnorm 2 (vec_sub fp ?xv)"
      by (auto simp: list_ex_iff not_less)
    with Cons.prems(5) have sw: "sorted_wrt (\<lambda>a b. e \<le> pnorm 2 (vec_sub a b)) (fps @ [?xv])"
      by (simp add: sorted_wrt_append)
    show ?thesis
      by (rule Cons.IH [OF rec Cons.prems(2)]) (use Cons.prems lenxv sw in auto)
  next
    case False
    with Cons.prems(1) have rec: "search_loop fsolve contains names fixed_vars e seeds fps fpl = Inr pts"
      by (auto simp: Let_def ebind_Inr_iff split: if_splits)
    show ?thesis
      by (rule Cons.IH [OF rec Cons.prems(2)]) (use Cons.prems in auto)
  qed
qed

text \<open>
  Claim C3. When \<open>find_fixedpoints\<close> returns, any two points at different positions of
  the returned collection are at a distance of at least \<open>eps\<close> in the 2-norm the
  function compares roots in (the coordinates of a returned point are the values of its
  dictionary; its fixed coordinates are the same in every point). The solver is assumed
  to return an array of the shape of its seed. A root closer than \<open>eps\<close> to a root
  accepted earlier is not appended, so the representative found first is the one kept.
\<close>

theorem find_fixedpoints_separated:
  assumes "find_fixedpoints fsolve contains xd vars sub n ms e = Inr pts"
    and "\<forall>x0. length (fst (fsolve x0)) = length x0"
    and "i < length pts" and "j < length pts" and "i \<noteq> j"
  shows "e \<le> pnorm 2 (vec_sub (map snd (pts ! i)) (map snd (pts ! j)))"
proof -
  from assms(1) obtain names fixed_vars seeds where
    sd: "find_fixedpoints_seeds xd vars sub n ms = Inr (names, fixed_vars, seeds)"
    and sl: "search_loop fsolve contains names fixed_vars e seeds [] [] = Inr pts"
    by (auto simp: find_fixedpoints_def ebind_Inr_iff)
  from find_fixedpoints_seeds_Inr [OF sd] have "\<forall>x0 \<in> set seeds. length x0 = length names"
    by blast
  from search_loop_separated [OF sl assms(2) this] obtain fps where
    pts: "pts = map (\<lambda>xv. zip names xv @ fixed_vars) fps"
    and sw: "sorted_wrt (\<lambda>a b. e \<le> pnorm 2 (vec_sub a b)) fps"
    and len: "\<forall>xv \<in> set fps. length xv = length names"
    by auto
  have lt: "e \<le> pnorm 2 (vec_sub (fps ! k) (fps ! l))" if "k < l" "l < length fps" for k l
    using sw that by (simp add: sorted_wrt_iff_nth_less)
  have d: "pnorm 2 (vec_sub (map snd (pts ! k)) (map snd (pts ! l))) = pnorm 2 (vec_sub (fps ! k) (fps ! l))"
    if "k < length fps" "l < length fps" for k l
  proof -
    from that len have "length (fps ! k) = length names" "length (fps ! l) = length names"
      by simp_all
    from returned_point_distance [OF this] that pts show ?thesis by simp
  qed
  from assms(3,4) pts have ij: "i < length fps" "j < length fps" by auto
  show ?thesis
  proof (cases "i < j")
    case True
    with lt ij d show ?thesis by simp
  next
    case False
    with assms(5) have "j < i" by simp
    with lt [of j i] ij have "e \<le> pnorm 2 (vec_sub (fps ! i) (fps ! j))"
      by (simp add: pnorm_vec_sub_commute [of 2 "fps ! i"])
    with d ij show ?thesis by simp
  qed
qed

lemma two_roots_run:
  "find_fixedpoints two_roots_fsolve any_value [(''x'', Range (Finite (- 1)) (Finite 1))]
       [''x''] None 3 1000 (1 / 10 ^ 8) = Inr [[(''x'', - 1)], [(''x'', 1)]]"
  by (simp add: find_fixedpoints_def find_fixedpoints_seeds_def ebind_def reduce_n.simps
        linspace_def py_index_def Let_def numeral_3_eq_3 two_roots_fsolve_def any_value_def
        vec_sub_def pnorm_singleton)

theorem find_fixedpoints_separated_witness:
  "find_fixedpoints two_roots_fsolve any_value [(''x'', Range (Finite (- 1)) (Finite 1))]
       [''x''] None 3 1000 (1 / 10 ^ 8) = Inr [[(''x'', - 1)], [(''x'', 1)]]
   \<and> (\<forall>x0. length (fst (two_roots_fsolve x0)) = length x0)
   \<and> (0::nat) < length [[(''x'', - 1 :: real)], [(''x'', 1)]]
   \<and> (1::nat) < length [[(''x'', - 1 :: real)], [(''x'', 1)]] \<and> (0::nat) \<noteq> 1
   \<and> 1 / 10 ^ 8 \<le> pnorm 2 (vec_sub (map snd ([[(''x'', - 1 :: real)], [(''x'', 1)]] ! 0))
                                  (map snd ([[(''x'', - 1 :: real)], [(''x'', 1)]] ! 1)))"
proof -
  have len: "\<forall>x0. length (fst (two_roots_fsolve x0)) = length x0"
    by (simp add: two_roots_fsolve_def)
  have i: "(0::nat) < length [[(''x'', - 1 :: real)], [(''x'', 1)]]"
    and j: "(1::nat) < length [[(''x'', - 1 :: real)], [(''x'', 1)]]" and ne: "(0::nat) \<noteq> 1"
    by simp_all
  from find_fixedpoints_separated [OF two_roots_run len i j ne] two_roots_run len
  show ?thesis by simp
qed

subsection \<open>Cropping and thinning of nullcline points\<close>

lemma fold_remove1_filter:
  "distinct rem \<Longrightarrow>
     fold (\<lambda>j rem. if C j then remove1 j rem else rem) js rem
       = filter (\<lambda>k. \<not> (k \<in> set js \<and> C k)) rem"
proof (induction js arbitrary: rem)
  case Nil
  then show ?case by simp
next
  case (Cons j js)
  show ?case
  proof (cases "C j")
    case True
    from Cons.prems have "remove1 j rem = filter (\<lambda>k. k \<noteq> j) rem"
      by (simp add: distinct_remove1_removeAll removeAll_filter_not_eq) metis
    moreover from Cons.prems have "distinct (remove1 j rem)" by simp
    ultimately show ?thesis using True Cons.IH [of "remove1 j rem"]
      by (auto intro: filter_cong)
  next
    case False
    with Cons.IH [OF Cons.prems] show ?thesis by (auto intro: filter_cong)
  qed
qed

lemma fold_cong_distinct:
  assumes "distinct rem" and "\<And>i r. distinct r \<Longrightarrow> f i r = filter (P i) r"
  shows "fold f is rem = filter (\<lambda>k. \<forall>i \<in> set is. P i k) rem"
  using assms(1)
proof (induction "is" arbitrary: rem)
  case Nil
  then show ?case by simp
next
  case (Cons i "is")
  have "fold f (i # is) rem = fold f is (filter (P i) rem)"
    using assms(2) [OF Cons.prems] by simp
  also have "\<dots> = filter (\<lambda>k. \<forall>i \<in> set is. P i k) (filter (P i) rem)"
    using Cons.prems by (intro Cons.IH) simp
  finally show ?case by (auto intro: filter_cong)
qed

lemma filter_close_points_remaining:
  "filter_close_points pts e nord =
     map (\<lambda>k. pts ! k)
       (filter (\<lambda>j. \<forall>i < j. \<not> vnorm nord (pts ! i - pts ! j) < e) [0..<length pts])"
proof -
  let ?n = "length pts"
  let ?C = "\<lambda>i j. vnorm nord (pts ! i - pts ! j) < e"
  let ?inner = "\<lambda>i rem. fold (\<lambda>j rem. if ?C i j then remove1 j rem else rem) [i + 1..<?n] rem"
  have inner: "?inner i r = filter (\<lambda>k. \<not> (k \<in> set [i + 1..<?n] \<and> ?C i k)) r" if "distinct r" for i r
    using that by (rule fold_remove1_filter)
  have "fold ?inner [0..<?n] [0..<?n]
          = filter (\<lambda>k. \<forall>i \<in> set [0..<?n]. \<not> (k \<in> set [i + 1..<?n] \<and> ?C i k)) [0..<?n]"
    by (rule fold_cong_distinct [OF _ inner]) simp_all
  also have "\<dots> = filter (\<lambda>j. \<forall>i < j. \<not> ?C i j) [0..<?n]"
    by (rule filter_cong) auto
  finally show ?thesis by (simp add: filter_close_points_def Let_def)
qed

lemma filter_close_points_subset: "set (filter_close_points pts e nord) \<subseteq> set pts"
  by (auto simp: filter_close_points_remaining)

lemma filter_close_points_far:
  assumes "a < b" and "b < length (filter_close_points pts e nord)"
  shows "e \<le> vnorm nord (filter_close_points pts e nord ! a - filter_close_points pts e nord ! b)"
proof -
  let ?Q = "\<lambda>j. \<forall>i < j. \<not> vnorm nord (pts ! i - pts ! j) < e"
  let ?r = "filter ?Q [0..<length pts]"
  from assms have b: "b < length ?r" and a: "a < length ?r"
    by (simp_all add: filter_close_points_remaining)
  have "sorted_wrt (<) ?r" by (intro sorted_wrt_filter) (simp add: sorted_wrt_upt)
  with assms(1) b have lt: "?r ! a < ?r ! b" by (simp add: sorted_wrt_iff_nth_less)
  from b have "?r ! b \<in> set ?r" by (rule nth_mem)
  then have "?Q (?r ! b)" by simp
  with lt have "\<not> vnorm nord (pts ! (?r ! a) - pts ! (?r ! b)) < e" by blast
  with a b show ?thesis by (simp add: filter_close_points_remaining)
qed

lemma crop_2D_in:
  "p \<in> set (crop_2D s xi yi) \<Longrightarrow> interval_contains xi (vx p) \<and> interval_contains yi (vy p)"
  by (simp add: crop_2D_def)

lemma refine_in:
  "refine pc is_y null fps x_d y_d xi yi ms mnp = Inr pts \<Longrightarrow> p \<in> set pts \<Longrightarrow>
     interval_contains xi (vx p) \<and> interval_contains yi (vy p)"
  by (auto simp: refine_def Let_def ebind_Inr_iff crop_2D_def)

lemma vnorm_axis_x: "0 < p \<Longrightarrow> vnorm p (Vec2 a 0) = \<bar>a\<bar>"
  by (simp add: vnorm_def pnorm_def zero_power real_root_power_cancel)

lemma vnorm_axis_y: "0 < p \<Longrightarrow> vnorm p (Vec2 0 b) = \<bar>b\<bar>"
  by (simp add: vnorm_def pnorm_def zero_power real_root_power_cancel)

lemma vnorm_2_less_iff: "0 < e \<Longrightarrow> vnorm 2 v < e \<longleftrightarrow> (vx v)\<^sup>2 + (vy v)\<^sup>2 < e\<^sup>2"
proof -
  assume e: "0 < e"
  have "vnorm 2 v = sqrt ((vx v)\<^sup>2 + (vy v)\<^sup>2)" by (simp add: vnorm_def pnorm_def sqrt_def)
  moreover have "sqrt ((vx v)\<^sup>2 + (vy v)\<^sup>2) < e \<longleftrightarrow> (vx v)\<^sup>2 + (vy v)\<^sup>2 < e\<^sup>2"
    using e by (metis real_sqrt_less_iff real_sqrt_abs abs_of_pos)
  ultimately show ?thesis by simp
qed

lemma find_nullclines_on_Inr:
  assumes "find_nullclines_on xinf pc xname yname do_vars x_d y_d fps n xtol ms mnp
             = Inr (x_null, y_null)"
  shows "(\<forall>p \<in> set x_null \<union> set y_null.
          fst x_d - 2 / 100 * \<bar>snd x_d - fst x_d\<bar> \<le> vx p
        \<and> vx p \<le> snd x_d + 2 / 100 * \<bar>snd x_d - fst x_d\<bar>
        \<and> fst y_d - 2 / 100 * \<bar>snd y_d - fst y_d\<bar> \<le> vy p
        \<and> vy p \<le> snd y_d + 2 / 100 * \<bar>snd y_d - fst y_d\<bar>)
    \<and> (ms = MaxStepZero \<longrightarrow>
          (\<forall>i j. i < j \<and> j < length x_null \<longrightarrow>
             10 * (case xtol of None \<Rightarrow> 149012 / 10 ^ 13 | Some v \<Rightarrow> v)
               \<le> vnorm 2 (x_null ! i - x_null ! j))
        \<and> (\<forall>i j. i < j \<and> j < length y_null \<longrightarrow>
             10 * (case xtol of None \<Rightarrow> 149012 / 10 ^ 13 | Some v \<Rightarrow> v)
               \<le> vnorm 2 (y_null ! i - y_null ! j)))"
proof -
  define xtl where "xtl = (case xtol of None \<Rightarrow> 149012 / 10 ^ 13 | Some v \<Rightarrow> v)"
  define grid where "grid = null_grid xinf xname yname do_vars x_d y_d fps n"
  define xi where "xi = (fst x_d - 2 / 100 * \<bar>snd x_d - fst x_d\<bar>, snd x_d + 2 / 100 * \<bar>snd x_d - fst x_d\<bar>)"
  define yi where "yi = (fst y_d - 2 / 100 * \<bar>snd y_d - fst y_d\<bar>, snd y_d + 2 / 100 * \<bar>snd y_d - fst y_d\<bar>)"
  define x0 where "x0 = filter_close_points (crop_2D (filter_NaN (fst grid)) xi yi) (xtl * 10) 2"
  define y0 where "y0 = filter_close_points (crop_2D (filter_NaN (snd grid)) xi yi) (xtl * 10) 2"
  have unf: "find_nullclines_on xinf pc xname yname do_vars x_d y_d fps n xtol ms mnp =
     (if n \<le> 0 then Inl (ValueError ''slice step cannot be zero'')
      else if ms = MaxStepZero then Inr (x0, y0)
      else ebind (if yname \<in> set do_vars then refine pc True y0 fps x_d y_d xi yi ms mnp
                  else Inr y0) (\<lambda>y_null1.
           ebind (if xname \<in> set do_vars then refine pc False x0 fps x_d y_d xi yi ms mnp
                  else Inr x0) (\<lambda>x_null1. Inr (x_null1, y_null1))))"
    unfolding find_nullclines_on_def Let_def x0_def y0_def xi_def yi_def grid_def xtl_def ..
  have in0: "interval_contains xi (vx p) \<and> interval_contains yi (vy p)"
    if "p \<in> set x0 \<or> p \<in> set y0" for p
    using that filter_close_points_subset crop_2D_in unfolding x0_def y0_def by blast
  have xcase: "x_null = x0 \<or> (\<exists>z. refine pc False z fps x_d y_d xi yi ms mnp = Inr x_null)"
    using assms unfolding unf by (auto simp: ebind_Inr_iff split: if_splits)
  have ycase: "y_null = y0 \<or> (\<exists>z. refine pc True z fps x_d y_d xi yi ms mnp = Inr y_null)"
    using assms unfolding unf by (auto simp: ebind_Inr_iff split: if_splits)
  have "interval_contains xi (vx p) \<and> interval_contains yi (vy p)" if "p \<in> set x_null" for p
    using xcase that in0 refine_in by blast
  moreover
  have "interval_contains xi (vx p) \<and> interval_contains yi (vy p)" if "p \<in> set y_null" for p
    using ycase that in0 refine_in by blast
  ultimately have crop: "\<forall>p \<in> set x_null \<union> set y_null.
          fst x_d - 2 / 100 * \<bar>snd x_d - fst x_d\<bar> \<le> vx p
        \<and> vx p \<le> snd x_d + 2 / 100 * \<bar>snd x_d - fst x_d\<bar>
        \<and> fst y_d - 2 / 100 * \<bar>snd y_d - fst y_d\<bar> \<le> vy p
        \<and> vy p \<le> snd y_d + 2 / 100 * \<bar>snd y_d - fst y_d\<bar>"
    by (auto simp: interval_contains_def xi_def yi_def)
  have far: "(\<forall>i j. i < j \<and> j < length x_null \<longrightarrow> 10 * xtl \<le> vnorm 2 (x_null ! i - x_null ! j))
        \<and> (\<forall>i j. i < j \<and> j < length y_null \<longrightarrow> 10 * xtl \<le> vnorm 2 (y_null ! i - y_null ! j))"
    if "ms = MaxStepZero"
  proof -
    from assms that have "x_null = x0" "y_null = y0"
      unfolding unf by (auto split: if_splits)
    then show ?thesis
      using filter_close_points_far [of _ _ _ "xtl * 10" 2]
      by (simp add: x0_def y0_def mult.commute)
  qed
  from crop far show ?thesis unfolding xtl_def by blast
qed

lemma domain_or_default_Some:
  "domain_or_default d wanted gen_dom = Inr (Some v) \<Longrightarrow>
     v = (case d of Some u \<Rightarrow> u | None \<Rightarrow> (fl_val (fst gen_dom), fl_val (snd gen_dom)))"
  by (auto simp: domain_or_default_def split: option.splits if_splits)

text \<open>
  Claim C4, as amended. When \<open>find_nullclines\<close> returns, every point of both returned
  curves lies in the domain rectangle expanded on each side by 2 percent of the width of
  the axis, for the raw grid-search output and for the continuation-refined output alike.
  For the raw grid-search output (\<open>max_step = 0\<close>) no two points of a returned curve
  are closer than \<open>10 * xtol\<close> in the 2-norm. The continuation-refined output is
  cropped only: it is not thinned, and nothing is promised about the distance of its
  points. The domain is the sub-domain passed or else the generator's, and \<open>xtol\<close>
  defaults to \<open>1.49012e-8\<close>.
\<close>

theorem find_nullclines_cropped:
  assumes "find_nullclines xinf pc gen_xdom gen_ydom xname yname x_dom y_dom fps n xtol ms mnp
             only_var = Inr (x_null, y_null)"
  shows "\<exists>x_d y_d xtl.
      x_d = (case x_dom of Some d \<Rightarrow> d | None \<Rightarrow> (fl_val (fst gen_xdom), fl_val (snd gen_xdom)))
    \<and> y_d = (case y_dom of Some d \<Rightarrow> d | None \<Rightarrow> (fl_val (fst gen_ydom), fl_val (snd gen_ydom)))
    \<and> xtl = (case xtol of None \<Rightarrow> 149012 / 10 ^ 13 | Some v \<Rightarrow> v)
    \<and> (\<forall>p \<in> set x_null \<union> set y_null.
          fst x_d - 2 / 100 * \<bar>snd x_d - fst x_d\<bar> \<le> vx p
        \<and> vx p \<le> snd x_d + 2 / 100 * \<bar>snd x_d - fst x_d\<bar>
        \<and> fst y_d - 2 / 100 * \<bar>snd y_d - fst y_d\<bar> \<le> vy p
        \<and> vy p \<le> snd y_d + 2 / 100 * \<bar>snd y_d - fst y_d\<bar>)
    \<and> (ms = MaxStepZero \<longrightarrow>
          (\<forall>i j. i < j \<and> j < length x_null \<longrightarrow> 10 * xtl \<le> vnorm 2 (x_null ! i - x_null ! j))
        \<and> (\<forall>i j. i < j \<and> j < length y_null \<longrightarrow> 10 * xtl \<le> vnorm 2 (y_null ! i - y_null ! j)))"
proof -
  from assms obtain do_vars x1 y1 where
    dx: "domain_or_default x_dom (xname \<in> set do_vars) gen_xdom = Inr x1"
    and dy: "domain_or_default y_dom (yname \<in> set do_vars) gen_ydom = Inr y1"
    and rest: "(case (x1, y1) of
         (Some x_d, Some y_d) \<Rightarrow>
           find_nullclines_on xinf pc xname yname do_vars x_d y_d fps n xtol ms mnp
       | _ \<Rightarrow> Inl (TypeError ''NoneType object is unsubscriptable'')) = Inr (x_null, y_null)"
    unfolding find_nullclines_def by (auto simp: ebind_Inr_iff)
  from rest obtain x_d y_d where x1: "x1 = Some x_d" and y1: "y1 = Some y_d"
    and on: "find_nullclines_on xinf pc xname yname do_vars x_d y_d fps n xtol ms mnp
               = Inr (x_null, y_null)"
    by (cases x1; cases y1) auto
  from domain_or_default_Some [OF dx [unfolded x1]] domain_or_default_Some [OF dy [unfolded y1]]
    find_nullclines_on_Inr [OF on]
  show ?thesis by blast
qed

lemma vnorm_2_less_iff': "vnorm 2 v < e \<longleftrightarrow> 0 < e \<and> (vx v)\<^sup>2 + (vy v)\<^sup>2 < e\<^sup>2"
proof (cases "0 < e")
  case True
  then show ?thesis by (simp add: vnorm_2_less_iff)
next
  case False
  have "0 \<le> vnorm 2 v" by (simp add: vnorm_def pnorm_def)
  with False show ?thesis by simp
qed

lemma vnorm_2_times_less_iff:
  "0 < c \<Longrightarrow> vnorm 2 v * c < d \<longleftrightarrow> 0 < d \<and> ((vx v)\<^sup>2 + (vy v)\<^sup>2) * c\<^sup>2 < d\<^sup>2"
proof -
  assume c: "0 < c"
  have "vnorm 2 v * c < d \<longleftrightarrow> vnorm 2 v < d / c" using c by (simp add: field_simps)
  also have "\<dots> \<longleftrightarrow> 0 < d / c \<and> (vx v)\<^sup>2 + (vy v)\<^sup>2 < (d / c)\<^sup>2" by (rule vnorm_2_less_iff')
  also have "\<dots> \<longleftrightarrow> 0 < d \<and> ((vx v)\<^sup>2 + (vy v)\<^sup>2) * c\<^sup>2 < d\<^sup>2"
    using c by (simp add: field_simps power_divide zero_less_divide_iff)
  finally show ?thesis .
qed

lemma diagonal_thinned:
  "filter_close_points
     [Vec2 (- 1) (- 1), Vec2 1 1, Vec2 (- 1) (- 1), Vec2 (- 1) (- 1)] (1 / 10) 2
   = [Vec2 (- 1) (- 1), Vec2 1 1]"
  by (simp add: filter_close_points_def upt_rec minus_vec2_def vnorm_2_less_iff'
      vnorm_2_times_less_iff)

lemma diagonal_grid_run:
  "find_nullclines diagonal_xinf close_points_cont (Finite (- 1), Finite 1) (Finite (- 1), Finite 1)
     ''x'' ''y'' None None (Some [(1, 1)]) 1 (Some (1 / 100)) MaxStepZero 1000 None
   = Inr ([Vec2 (- 1) (- 1), Vec2 1 1], [Vec2 (- 1) (- 1), Vec2 1 1])"
  by (simp add: find_nullclines_def find_nullclines_on_def domain_or_default_def null_grid_def
        ebind_def linspace_def diagonal_xinf_def filter_NaN_def crop_2D_def interval_contains_def
        diagonal_thinned)

theorem find_nullclines_cropped_witness:
  "find_nullclines diagonal_xinf close_points_cont (Finite (- 1), Finite 1) (Finite (- 1), Finite 1)
     ''x'' ''y'' None None (Some [(1, 1)]) 1 (Some (1 / 100)) MaxStepZero 1000 None
   = Inr ([Vec2 (- 1) (- 1), Vec2 1 1], [Vec2 (- 1) (- 1), Vec2 1 1])
   \<and> (\<exists>x_d y_d xtl.
      x_d = (fl_val (fst (Finite (- 1), Finite 1)), fl_val (snd (Finite (- 1), Finite 1)))
    \<and> y_d = (fl_val (fst (Finite (- 1), Finite 1)), fl_val (snd (Finite (- 1), Finite 1)))
    \<and> xtl = 1 / 100
    \<and> (\<forall>p \<in> set [Vec2 (- 1) (- 1), Vec2 1 1] \<union> set [Vec2 (- 1) (- 1), Vec2 1 1].
          fst x_d - 2 / 100 * \<bar>snd x_d - fst x_d\<bar> \<le> vx p
        \<and> vx p \<le> snd x_d + 2 / 100 * \<bar>snd x_d - fst x_d\<bar>
        \<and> fst y_d - 2 / 100 * \<bar>snd y_d - fst y_d\<bar> \<le> vy p
        \<and> vy p \<le> snd y_d + 2 / 100 * \<bar>snd y_d - fst y_d\<bar>)
    \<and> (MaxStepZero = MaxStepZero \<longrightarrow>
          (\<forall>i j. i < j \<and> j < length [Vec2 (- 1) (- 1), Vec2 1 1] \<longrightarrow>
             10 * xtl \<le> vnorm 2 ([Vec2 (- 1) (- 1), Vec2 1 1] ! i - [Vec2 (- 1) (- 1), Vec2 1 1] ! j))
        \<and> (\<forall>i j. i < j \<and> j < length [Vec2 (- 1) (- 1), Vec2 1 1] \<longrightarrow>
             10 * xtl \<le> vnorm 2 ([Vec2 (- 1) (- 1), Vec2 1 1] ! i - [Vec2 (- 1) (- 1), Vec2 1 1] ! j))))"
  by (rule conjI [OF diagonal_grid_run
        find_nullclines_cropped [OF diagonal_grid_run, unfolded option.case]])

text \<open>
  The claim as stated fails for the continuation-refined output: with \<open>xtol = 0.01\<close>
  and a continuation whose curve has the points \<open>(0, 0)\<close> and \<open>(0.01, 0)\<close>, both are
  returned, at a distance of \<open>0.01\<close>, which is below \<open>10 * xtol = 0.1\<close>.
\<close>

theorem find_nullclines_refined_counterexample:
  "find_nullclines no_root_xinf close_points_cont (Finite (- 1), Finite 1) (Finite (- 1), Finite 1)
     ''x'' ''y'' None None None 3 (Some (1 / 100)) (MaxStepDict (1 / 100) (1 / 100)) 1000 None
   = Inr ([Vec2 0 0, Vec2 (1 / 100) 0], [Vec2 0 0, Vec2 (1 / 100) 0])
   \<and> vnorm 2 ([Vec2 0 0, Vec2 (1 / 100) 0] ! 0 - [Vec2 0 0, Vec2 (1 / 100) 0] ! 1) < 10 * (1 / 100)"
  by (simp add: find_nullclines_def find_nullclines_on_def domain_or_default_def null_grid_def
        ebind_def linspace_def no_root_xinf_def filter_NaN_def crop_2D_def interval_contains_def
        filter_close_points_def Let_def upt_rec minus_vec2_def vnorm_axis_x
        refine_def close_points_cont_def cont_loop.simps check_bounds_def cont_init_def
        clamp_init_def numeral_3_eq_3)

subsection \<open>The exit events of find\_saddle\_manifolds\<close>

lemma both_active_set_gamma:
  "both_active (set_gamma p es eu gam tmax g w) = both_active g"
  by (cases "Gamma_out_plus g"; cases "Gamma_out_minus g")
     (simp_all add: both_active_def set_gamma_def Let_def)

lemma present_set_gamma:
  "Gamma_out_plus (set_gamma p es eu gam tmax g w) \<noteq> None \<longleftrightarrow> Gamma_out_plus g \<noteq> None"
  "Gamma_out_minus (set_gamma p es eu gam tmax g w) \<noteq> None \<longleftrightarrow> Gamma_out_minus g \<noteq> None"
  by (simp_all add: set_gamma_def Let_def)

lemma both_active_set_active:
  "Gamma_out_plus g \<noteq> None \<Longrightarrow> Gamma_out_minus g \<noteq> None \<Longrightarrow> both_active (set_active True g)"
  by (auto simp: both_active_def set_active_def)

lemma both_inactive_set_active:
  "Gamma_out_plus g \<noteq> None \<Longrightarrow> Gamma_out_minus g \<noteq> None \<Longrightarrow> both_inactive (set_active False g)"
  by (auto simp: both_inactive_def set_active_def)

lemma both_active_present:
  "both_active g \<Longrightarrow> Gamma_out_plus g \<noteq> None \<and> Gamma_out_minus g \<noteq> None"
  by (auto simp: both_active_def split: option.splits)

lemma which_loop_active:
  assumes "which_loop (set_gamma p es eu gam tmax) body ws st g = (r, g')" and "both_active g"
  shows "both_active g'"
  using assms
proof (induction ws arbitrary: st g)
  case Nil
  then show ?case by simp
next
  case (Cons w ws)
  let ?g1 = "set_gamma p es eu gam tmax g w"
  have a: "both_active ?g1" using Cons.prems(2) by (simp add: both_active_set_gamma)
  show ?case
  proof (cases "body ?g1 w st")
    case (Inl ex)
    with Cons.prems(1) a show ?thesis by (simp add: Let_def)
  next
    case (Inr st1)
    with Cons.prems(1) have "which_loop (set_gamma p es eu gam tmax) body ws st1 ?g1 = (r, g')"
      by (simp add: Let_def)
    from Cons.IH [OF this a] show ?thesis .
  qed
qed

lemma which_loop_cong_active:
  assumes "both_active g"
    and "\<And>g1 w st. both_active g1 \<Longrightarrow> body g1 w st = body' g1 w st"
  shows "which_loop (set_gamma p es eu gam tmax) body ws st g
         = which_loop (set_gamma p es eu gam tmax) body' ws st g"
  using assms(1)
proof (induction ws arbitrary: st g)
  case Nil
  then show ?case by simp
next
  case (Cons w ws)
  let ?g1 = "set_gamma p es eu gam tmax g w"
  have a: "both_active ?g1" using Cons.prems by (simp add: both_active_set_gamma)
  from assms(2) [OF a] have b: "body ?g1 w st = body' ?g1 w st" .
  show ?case using Cons.IH [OF a] b by (simp add: Let_def split: sum.splits)
qed

lemma test_fn_guard:
  "both_active g \<Longrightarrow>
     test_fn (\<lambda>g x d. if both_active g then compute g x d else None) g dc = test_fn compute g dc"
  by (rule ext) (simp add: test_fn_def)

lemma branch_body_guard:
  "both_active g \<Longrightarrow>
     branch_body (\<lambda>g x d. if both_active g then compute g x d else None) Rhs fp_point evec_s
        evec_u e nord dxv dxscaled rel max_len max_pts other_pts fac directions g w st
     = branch_body compute Rhs fp_point evec_s evec_u e nord dxv dxscaled rel max_len max_pts
        other_pts fac directions g w st"
  by (simp add: branch_body_def onto_manifold_def test_fn_guard)

lemma saddle_setup_present:
  "saddle_setup fp g dxv dx_gamma rel_scale fac = Inr r \<Longrightarrow>
     Gamma_out_plus g \<noteq> None \<and> Gamma_out_minus g \<noteq> None"
  by (auto simp: saddle_setup_def ebind_Inr_iff py_assert_def split: if_splits)

text \<open>
  Claim C9. When \<open>find_saddle_manifolds\<close> returns normally, both exit events of the
  generator it leaves behind are present with their activation flag false. And the
  flags were true while the manifolds grew: the call gives the same result and the same
  final generator with an integrator that refuses to run unless both flags are true, so
  every trajectory the call computed was computed with both flags true.
\<close>

theorem find_saddle_manifolds_flags:
  assumes "find_saddle_manifolds compute Rhs fp g dxv dx_gamma dxp tmax max_len ic ic_dx max_pts
             directions which other_pts rel_scale fac = (Inr m, g')"
  shows "both_inactive g'
     \<and> find_saddle_manifolds (\<lambda>g x d. if both_active g then compute g x d else None) Rhs fp g dxv
           dx_gamma dxp tmax max_len ic ic_dx max_pts directions which other_pts rel_scale fac
         = (Inr m, g')"
proof -
  from assms obtain evec_s evec_u dxscaled rel gam where
    stp: "saddle_setup fp g dxv dx_gamma rel_scale fac = Inr (evec_s, evec_u, dxscaled, rel, gam)"
    by (cases "saddle_setup fp g dxv dx_gamma rel_scale fac")
       (auto simp: find_saddle_manifolds_def)
  let ?g1 = "set_active True g"
  from saddle_setup_present [OF stp] have act: "both_active ?g1"
    by (simp add: both_active_set_active)
  let ?pre = "ebind (vec2_of (coordarray (point fp))) (\<lambda>fp_point.
                ebind (py_index (coordnames (point fp)) 0) (\<lambda>var_x.
                ebind (py_index (coordnames (point fp)) 1) (\<lambda>var_y.
                ebind (py_assert (tmax > 0) []) (\<lambda>_. Inr fp_point))))"
  from assms stp obtain fp_point where pre: "?pre = Inr fp_point"
    by (cases ?pre) (auto simp: find_saddle_manifolds_def Let_def)
  let ?body = "\<lambda>c. branch_body c Rhs fp_point evec_s evec_u (eps fp / 100) (nat (normord fp)) dxv
                  dxscaled rel max_len max_pts other_pts fac directions"
  let ?loop = "\<lambda>c. which_loop (set_gamma fp_point evec_s evec_u gam tmax) (?body c) which
                  (ic, ic_dx, dxp, False, []) ?g1"
  have unf: "find_saddle_manifolds c Rhs fp g dxv dx_gamma dxp tmax max_len ic ic_dx max_pts
             directions which other_pts rel_scale fac =
       (case ?loop c of
          (Inl ex, g2) \<Rightarrow> (Inl ex, g2)
        | (Inr (ic1, ic_dx1, dxp1, e_bound1, manifold), g2) \<Rightarrow> (Inr manifold, set_active False g2))"
    for c
    using pre by (simp add: find_saddle_manifolds_def stp Let_def)
  obtain r g2 where loop: "?loop compute = (r, g2)" by (cases "?loop compute") auto
  from which_loop_active [OF loop act] have "both_active g2" .
  then have pres: "Gamma_out_plus g2 \<noteq> None" "Gamma_out_minus g2 \<noteq> None"
    using both_active_present by blast+
  from assms loop have g': "g' = set_active False g2"
    unfolding unf by (cases r) (auto split: prod.splits)
  with pres have off: "both_inactive g'" by (simp add: both_inactive_set_active)
  have "?loop (\<lambda>g x d. if both_active g then compute g x d else None) = ?loop compute"
    by (rule which_loop_cong_active [OF act]) (rule branch_body_guard)
  with assms have "find_saddle_manifolds (\<lambda>g x d. if both_active g then compute g x d else None)
           Rhs fp g dxv dx_gamma dxp tmax max_len ic ic_dx max_pts directions which other_pts
           rel_scale fac = (Inr m, g')"
    unfolding unf by simp
  with off show ?thesis by simp
qed

subsection \<open>Tracing the stable branch of the linear saddle\<close>

lemma correction_all_fail:
  assumes "\<And>dn. \<exists>msg. onto dn = Inl (RuntimeError msg)" and "0 < fac" and "fac < 1"
  shows "\<exists>d. correction onto fac dxp e_bound = Inr (d, e_bound \<or> dx_perp_eps < dxp, None)
             \<and> d \<le> dx_perp_eps"
  using assms
proof (induction onto fac dxp e_bound rule: correction.induct)
  case (1 onto fac dxp e_bound)
  show ?case
  proof (cases "dxp > dx_perp_eps")
    case False
    with "1.prems" show ?thesis by (simp add: correction.simps [of onto fac dxp])
  next
    case True
    from "1.prems"(1) obtain msg where f: "onto dxp = Inl (RuntimeError msg)" by blast
    from "1.prems" have nf: "\<not> (fac \<ge> 1 \<or> fac \<le> 0)" by simp
    from "1.IH" [OF nf True f _ "1.prems"] obtain d where
      "correction onto fac (dxp * fac) True = Inr (d, True \<or> dx_perp_eps < dxp * fac, None)"
      "d \<le> dx_perp_eps" by auto
    with True f nf show ?thesis by (simp add: correction.simps [of onto fac dxp])
  qed
qed

lemma saddle_setup_eval:
  "saddle_setup linear_saddle_fp idle_gen (1 / 10) (GammaNum (1 / 10)) None (1 / 2)
     = Inr (Vec2 0 1, Vec2 1 0, \<lparr>dx = 1 / 10, x_scale = 1, y_scale = 1\<rparr>, (1, 1), (1 / 10, 1 / 10))"
  by (simp add: saddle_setup_def linear_saddle_fp_def idle_gen_def ebind_def py_assert_def
        py_index_def dx_scaled_2D_init_def vec2_of_def)

lemma gen_eval:
  "set_gamma (Vec2 0 0) (Vec2 0 1) (Vec2 1 0) (1 / 10, 1 / 10) 10 (set_active True idle_gen) S
     = stable_gen True"
  by (simp add: set_gamma_def set_active_def idle_gen_def stable_gen_def Let_def perp_def
        plus_vec2_def minus_vec2_def scaleR_vec2_def)


lemmas vec2_arith = plus_vec2_def minus_vec2_def uminus_vec2_def scaleR_vec2_def zero_vec2_def

lemma first_point_stable:
  "0 < dn \<Longrightarrow>
     onto_manifold linear_saddle_compute (stable_gen True) e 2 (Vec2 0 (- (1 / 10))) dn (Vec2 1 0) F
       = Inr (Vec2 0 (- (1 / 10)))"
  by (simp add: onto_manifold_def bisection_def test_fn_def linear_saddle_compute_def vec2_arith
        bisection_loop.simps [of _ _ _ _ 1] Let_def)

lemma far_point_fails:
  "onto_manifold linear_saddle_compute (stable_gen True) e 2 (Vec2 0 (- (1 / 5))) dn (Vec2 1 0) F
     = Inl (RuntimeError ''Integration failed'')"
  by (simp add: onto_manifold_def bisection_def test_fn_def linear_saddle_compute_def vec2_arith)


lemma unit_step_up: "dx_scaled_2D_call \<lparr>dx = d, x_scale = 1, y_scale = 1\<rparr> v = d *\<^sub>R v"
  unfolding dx_scaled_2D_call_def Let_def by simp

lemma rmul_unit:
  "dx_scaled_2D_rmul_scalar \<lparr>dx = d, x_scale = 1, y_scale = 1\<rparr> k
     = Inr \<lparr>dx = d * k, x_scale = 1, y_scale = 1\<rparr>"
  by (simp add: dx_scaled_2D_rmul_scalar_def dx_scaled_2D_init_def)

lemma grow_stops:
  "\<exists>d. grow (linear_saddle_Rhs (stable_gen True))
          (\<lambda>x_ic dn normal_dir. onto_manifold linear_saddle_compute (stable_gen True) e 2
             x_ic dn normal_dir F)
          (vnorm 2) (1 / 10) \<lparr>dx = 1 / 10, x_scale = 1, y_scale = 1\<rparr> 1 1000 None (- 1) 1
          (1 / 1000) (1 / 10) 1 (Vec2 0 (- (1 / 10))) (Vec2 0 1) (1 / 1000) False piece
        = Inr (d, 1 / 10, True, piece) \<and> d \<le> dx_perp_eps"
proof -
  let ?onto = "\<lambda>dn. onto_manifold linear_saddle_compute (stable_gen True) e 2
                  (Vec2 0 (- (1 / 5))) dn (Vec2 1 0) F"
  have "\<exists>d. correction ?onto (3 / 4) (1 / 1000) False
               = Inr (d, False \<or> dx_perp_eps < 1 / 1000, None) \<and> d \<le> dx_perp_eps"
    by (rule correction_all_fail) (simp_all add: far_point_fails)
  then obtain d where c: "correction ?onto (3 / 4) (1 / 1000) False = Inr (d, True, None)"
    and d: "d \<le> dx_perp_eps"
    by (auto simp: dx_perp_eps_def)
  have "grow (linear_saddle_Rhs (stable_gen True))
          (\<lambda>x_ic dn normal_dir. onto_manifold linear_saddle_compute (stable_gen True) e 2
             x_ic dn normal_dir F)
          (vnorm 2) (1 / 10) \<lparr>dx = 1 / 10, x_scale = 1, y_scale = 1\<rparr> 1 1000 None (- 1) 1
          (1 / 1000) (1 / 10) 1 (Vec2 0 (- (1 / 10))) (Vec2 0 1) (1 / 1000) False piece
        = Inr (d, 1 / 10, True, piece)"
    using c d
    by (subst grow.simps)
       (simp add: linear_saddle_Rhs_def rmul_unit unit_step_up vec2_arith vnorm_axis_y
          perp_def ebind_def Let_def)
  with d show ?thesis by blast
qed


lemma first_direction:
  "\<exists>d. start_direction (linear_saddle_Rhs (stable_gen True))
          (\<lambda>x_ic dn normal_dir. onto_manifold linear_saddle_compute (stable_gen True) e 2
             x_ic dn normal_dir F)
          (vnorm 2) (1 / 10) \<lparr>dx = 1 / 10, x_scale = 1, y_scale = 1\<rparr> 1 1000 None (- 1) (1 / 2)
          (Vec2 0 0) (Vec2 0 1) \<lparr>dx = 1 / 10, x_scale = 1, y_scale = 1\<rparr> 1
          (1 / 1000, 0, False, [])
        = Inr (d, 1 / 10, True, [(1 / 10, Vec2 0 (- (1 / 10)))]) \<and> d \<le> dx_perp_eps"
proof -
  let ?onto = "\<lambda>x_ic dn normal_dir. onto_manifold linear_saddle_compute (stable_gen True) e 2
             x_ic dn normal_dir F"
  have c: "correction (\<lambda>dn. ?onto (Vec2 0 (- (1 / 10))) dn (Vec2 1 0)) (1 / 2) (1 / 1000) False
             = Inr (1 / 1000, False, Some (Vec2 0 (- (1 / 10))))"
    by (subst correction.simps) (simp add: first_point_stable dx_perp_eps_def)
  from grow_stops [of e "[(1 / 10, Vec2 0 (- (1 / 10)))]"] obtain d where
    g: "grow (linear_saddle_Rhs (stable_gen True)) ?onto
          (vnorm 2) (1 / 10) \<lparr>dx = 1 / 10, x_scale = 1, y_scale = 1\<rparr> 1 1000 None (- 1) 1
          (1 / 1000) (1 / 10) 1 (Vec2 0 (- (1 / 10))) (Vec2 0 1) (1 / 1000) False
          [(1 / 10, Vec2 0 (- (1 / 10)))]
        = Inr (d, 1 / 10, True, [(1 / 10, Vec2 0 (- (1 / 10)))])" and d: "d \<le> dx_perp_eps"
    by blast
  have "start_direction (linear_saddle_Rhs (stable_gen True)) ?onto
          (vnorm 2) (1 / 10) \<lparr>dx = 1 / 10, x_scale = 1, y_scale = 1\<rparr> 1 1000 None (- 1) (1 / 2)
          (Vec2 0 0) (Vec2 0 1) \<lparr>dx = 1 / 10, x_scale = 1, y_scale = 1\<rparr> 1
          (1 / 1000, 0, False, [])
        = Inr (d, 1 / 10, True, [(1 / 10, Vec2 0 (- (1 / 10)))])"
    using c g
    by (simp add: start_direction_def linear_saddle_Rhs_def rmul_unit unit_step_up vec2_arith
          vnorm_axis_y perp_def ebind_def Let_def dict_set_def dx_perp_eps_def)
  with d show ?thesis by blast
qed

lemma second_direction:
  assumes "d \<le> dx_perp_eps"
  shows "start_direction (linear_saddle_Rhs (stable_gen True))
          (\<lambda>x_ic dn normal_dir. onto_manifold linear_saddle_compute (stable_gen True) e 2
             x_ic dn normal_dir F)
          (vnorm 2) (1 / 10) \<lparr>dx = 1 / 10, x_scale = 1, y_scale = 1\<rparr> 1 1000 None (- 1) (1 / 2)
          (Vec2 0 0) (Vec2 0 1) \<lparr>dx = 1 / 10, x_scale = 1, y_scale = 1\<rparr> (- 1)
          (d, 1 / 10, True, piece)
        = Inl (RuntimeError ''Initial point did not converge'')"
proof -
  have c: "correction onto (1 / 2) d True = Inr (d, True, None)" for onto
    using assms by (subst correction.simps) simp
  show ?thesis
    using assms
    by (simp add: start_direction_def linear_saddle_Rhs_def rmul_unit unit_step_up vec2_arith
          vnorm_axis_y perp_def ebind_def Let_def c)
qed


lemma fp_fields:
  "point linear_saddle_fp = origin_pt" "normord linear_saddle_fp = 2"
  "coordarray origin_pt = [0, 0]" "coordnames origin_pt = [''x'', ''y'']"
  by (simp_all add: linear_saddle_fp_def origin_pt_def)

lemma stable_gen_off: "set_active False (stable_gen True) = stable_gen False"
  by (simp add: set_active_def stable_gen_def)

lemma one_direction_returns:
  "find_saddle_manifolds linear_saddle_compute linear_saddle_Rhs linear_saddle_fp idle_gen
      (1 / 10) (GammaNum (1 / 10)) (1 / 1000) 10 1 IcNone IcDxNone 1000 [1] [S] None None (1 / 2)
    = (Inr [(S, [(1 / 10, Vec2 0 (- (1 / 10)))])], stable_gen False)"
proof -
  from first_direction [of "eps linear_saddle_fp / 100"] obtain d where
    d1: "start_direction (linear_saddle_Rhs (stable_gen True))
          (\<lambda>x_ic dn normal_dir. onto_manifold linear_saddle_compute (stable_gen True)
             (eps linear_saddle_fp / 100) 2 x_ic dn normal_dir F)
          (vnorm 2) (1 / 10) \<lparr>dx = 1 / 10, x_scale = 1, y_scale = 1\<rparr> 1 1000 None (- 1) (1 / 2)
          (Vec2 0 0) (Vec2 0 1) \<lparr>dx = 1 / 10, x_scale = 1, y_scale = 1\<rparr> 1
          (1 / 1000, 0, False, [])
        = Inr (d, 1 / 10, True, [(1 / 10, Vec2 0 (- (1 / 10)))])"
    by blast
  show ?thesis
    by (simp add: find_saddle_manifolds_def saddle_setup_eval fp_fields vec2_of_def py_index_def
          py_assert_def ebind_def gen_eval branch_body_def vec2_arith d1 dict_set_def
          stable_gen_off Let_def)
qed

lemma two_directions_raise:
  "find_saddle_manifolds linear_saddle_compute linear_saddle_Rhs linear_saddle_fp idle_gen
      (1 / 10) (GammaNum (1 / 10)) (1 / 1000) 10 1 IcNone IcDxNone 1000 [1, - 1] [S] None None (1 / 2)
    = (Inl (RuntimeError ''Initial point did not converge''), stable_gen True)"
proof -
  from first_direction [of "eps linear_saddle_fp / 100"] obtain d where
    d1: "start_direction (linear_saddle_Rhs (stable_gen True))
          (\<lambda>x_ic dn normal_dir. onto_manifold linear_saddle_compute (stable_gen True)
             (eps linear_saddle_fp / 100) 2 x_ic dn normal_dir F)
          (vnorm 2) (1 / 10) \<lparr>dx = 1 / 10, x_scale = 1, y_scale = 1\<rparr> 1 1000 None (- 1) (1 / 2)
          (Vec2 0 0) (Vec2 0 1) \<lparr>dx = 1 / 10, x_scale = 1, y_scale = 1\<rparr> 1
          (1 / 1000, 0, False, [])
        = Inr (d, 1 / 10, True, [(1 / 10, Vec2 0 (- (1 / 10)))])"
    and d: "d \<le> dx_perp_eps"
    by blast
  note d2 = second_direction [OF d, of "eps linear_saddle_fp / 100" "[(1 / 10, Vec2 0 (- (1 / 10)))]"]
  show ?thesis
    by (simp add: find_saddle_manifolds_def saddle_setup_eval fp_fields vec2_of_def py_index_def
          py_assert_def ebind_def gen_eval branch_body_def vec2_arith d1 d2 Let_def)
qed


lemma shrink_by_three_quarters:
  "directions_loop
     (start_direction (linear_saddle_Rhs (stable_gen True))
        (\<lambda>x_ic dn normal_dir. onto_manifold linear_saddle_compute (stable_gen True) (1 / 10 ^ 14) 2
           x_ic dn normal_dir F)
        (vnorm 2) (1 / 10) \<lparr>dx = 1 / 10, x_scale = 1, y_scale = 1\<rparr> 1 1000 None (- 1) (1 / 2)
        (Vec2 0 0) (Vec2 0 1) \<lparr>dx = 1 / 10, x_scale = 1, y_scale = 1\<rparr>)
     [1] (2 / 10 ^ 12, 0, False, [])
   = Inr (2 / 10 ^ 12 * (3 / 4) * (3 / 4) * (3 / 4), 1 / 10, True, [(1 / 10, Vec2 0 (- (1 / 10)))])"
  by (simp add: start_direction_def linear_saddle_Rhs_def rmul_unit unit_step_up vec2_arith
        vnorm_axis_y perp_def ebind_def Let_def dict_set_def dx_perp_eps_def
        correction.simps first_point_stable far_point_fails grow.simps)

text \<open>
  Claim C2 describes the intended recovery; the code departs from it at two places, shown
  here on the stable branch of the linear saddle, traced from the fixed point with
  \<open>dx = 0.1\<close>, \<open>dx_perp = 0.001\<close> and \<open>dx_perp_fac = 0.5\<close>, where the first point
  converges and no correction of the second point succeeds. Traced in direction 1 only,
  the growth ends silently and the call returns the branch with its one point. Traced in
  the directions 1 and -1, the same silent end leaves \<open>dx_perp\<close> below the floor,
  direction -1 takes that value as its default (line 926), and the call raises
  \<open>Initial point did not converge\<close> with the events still active: the partial branch
  is not returned. And at a subsequent point \<open>dx_perp\<close> is shrunk by the literal
  factor \<open>0.75\<close> (line 979), not by the configured \<open>0.5\<close>: from \<open>2e-12\<close> it takes
  three failed corrections to fall below the floor.
\<close>

theorem find_saddle_manifolds_partial_branch_lost:
  "find_saddle_manifolds linear_saddle_compute linear_saddle_Rhs linear_saddle_fp idle_gen
      (1 / 10) (GammaNum (1 / 10)) (1 / 1000) 10 1 IcNone IcDxNone 1000 [1] [S] None None (1 / 2)
    = (Inr [(S, [(1 / 10, Vec2 0 (- (1 / 10)))])], stable_gen False)
   \<and> find_saddle_manifolds linear_saddle_compute linear_saddle_Rhs linear_saddle_fp idle_gen
      (1 / 10) (GammaNum (1 / 10)) (1 / 1000) 10 1 IcNone IcDxNone 1000 [1, - 1] [S] None None (1 / 2)
    = (Inl (RuntimeError ''Initial point did not converge''), stable_gen True)
   \<and> directions_loop
     (start_direction (linear_saddle_Rhs (stable_gen True))
        (\<lambda>x_ic dn normal_dir. onto_manifold linear_saddle_compute (stable_gen True) (1 / 10 ^ 14) 2
           x_ic dn normal_dir F)
        (vnorm 2) (1 / 10) \<lparr>dx = 1 / 10, x_scale = 1, y_scale = 1\<rparr> 1 1000 None (- 1) (1 / 2)
        (Vec2 0 0) (Vec2 0 1) \<lparr>dx = 1 / 10, x_scale = 1, y_scale = 1\<rparr>)
     [1] (2 / 10 ^ 12, 0, False, [])
   = Inr (2 / 10 ^ 12 * (3 / 4) * (3 / 4) * (3 / 4), 1 / 10, True, [(1 / 10, Vec2 0 (- (1 / 10)))])"
  using one_direction_returns two_directions_raise shrink_by_three_quarters by blast

theorem find_saddle_manifolds_flags_witness:
  "find_saddle_manifolds linear_saddle_compute linear_saddle_Rhs linear_saddle_fp idle_gen
      (1 / 10) (GammaNum (1 / 10)) (1 / 1000) 10 1 IcNone IcDxNone 1000 [1] [S] None None (1 / 2)
    = (Inr [(S, [(1 / 10, Vec2 0 (- (1 / 10)))])], stable_gen False)
   \<and> both_inactive (stable_gen False)
   \<and> find_saddle_manifolds
        (\<lambda>g x d. if both_active g then linear_saddle_compute g x d else None)
        linear_saddle_Rhs linear_saddle_fp idle_gen
      (1 / 10) (GammaNum (1 / 10)) (1 / 1000) 10 1 IcNone IcDxNone 1000 [1] [S] None None (1 / 2)
    = (Inr [(S, [(1 / 10, Vec2 0 (- (1 / 10)))])], stable_gen False)"
  using find_saddle_manifolds_flags [OF one_direction_returns] one_direction_returns by blast


end
